theory Spec2Isabelle
  imports Main
begin

section \<open>Strings\<close>

text \<open>
  Python \<open>str\<close> values are modelled as \<open>string\<close>, a list of characters, and the
  model covers ASCII text: \<open>lower\<close> and \<open>upper\<close> are \<open>str.lower\<close> and
  \<open>str.upper\<close> on the letters A-Z and a-z, and carry every other character unchanged;
  \<open>length\<close> is \<open>len\<close>. On other letters \<open>str.upper\<close> differs and can lengthen the
  text, so a property that rests on what \<open>upper\<close> gives is stated for \<open>is_ascii\<close> text.
\<close>

definition is_ascii :: "string \<Rightarrow> bool" where
  "is_ascii s = list_all (\<lambda>c. (of_char c :: nat) < 128) s"

definition lower_char :: "char \<Rightarrow> char" where
  "lower_char c =
     (let n = (of_char c :: nat) in if 65 \<le> n \<and> n \<le> 90 then char_of (n + 32) else c)"

definition lower :: "string \<Rightarrow> string" where
  "lower s = map lower_char s"

definition upper_char :: "char \<Rightarrow> char" where
  "upper_char c =
     (let n = (of_char c :: nat) in if 97 \<le> n \<and> n \<le> 122 then char_of (n - 32) else c)"

definition upper :: "string \<Rightarrow> string" where
  "upper s = map upper_char s"

text \<open>\<open>starts_with s kw\<close> is \<open>s.startswith(kw)\<close>; \<open>contains s kw\<close> is \<open>kw in s\<close>.\<close>

fun starts_with :: "string \<Rightarrow> string \<Rightarrow> bool" where
  "starts_with s [] = True"
| "starts_with [] (k # ks) = False"
| "starts_with (c # cs) (k # ks) = (c = k \<and> starts_with cs ks)"

fun contains :: "string \<Rightarrow> string \<Rightarrow> bool" where
  "contains [] kw = (kw = [])"
| "contains (c # cs) kw = (starts_with (c # cs) kw \<or> contains cs kw)"

section \<open>Command Router (routes/agent.py, execute_agent_command)\<close>

text \<open>One constructor per branch of the \<open>if\<close>/\<open>elif\<close> chain, in source order.\<close>

datatype route =
    ProjectCreation
  | BulkTaskCreation
  | TaskModification
  | ProjectHealth
  | SingleTaskCreation
  | TaskBreakdown
  | Estimation
  | BacklogPrioritization
  | HealthSummary
  | DefaultPlan

text \<open>\<open>any(kw in prompt for kw in kws)\<close>\<close>

definition any_kw :: "string \<Rightarrow> string list \<Rightarrow> bool" where
  "any_kw prompt kws = list_ex (contains prompt) kws"

definition route_of :: "string \<Rightarrow> route" where
  "route_of request_prompt =
     (let prompt = lower request_prompt in
      if any_kw prompt [''create project'', ''new project'', ''generate plan'']
        then ProjectCreation
      else if any_kw prompt
          [''create tasks'', ''generate tasks'', ''to do list'', ''todo list'', ''tasks for'']
        then BulkTaskCreation
      else if any_kw prompt
          [''update'', ''change'', ''move'', ''delete'', ''remove'', ''reassign'']
        then TaskModification
      else if any_kw prompt
          [''health'', ''status'', ''how is the project'', ''progress'', ''burnout'']
        then ProjectHealth
      else if any_kw prompt
          [''add task'', ''create task'', ''new task'', ''task for'', ''create a task'',
           ''add a task'']
        then SingleTaskCreation
      else if any_kw prompt [''break down'', ''breakdown'', ''split'', ''subtasks for'']
        then TaskBreakdown
      else if any_kw prompt [''estimate'', ''how long'', ''time needed'', ''cost'']
        then Estimation
      else if any_kw prompt [''prioritize'', ''priority'', ''order backlog'', ''rank'']
        then BacklogPrioritization
      else if any_kw prompt [''health'', ''status'', ''summary'', ''how is'', ''progress'']
        then HealthSummary
      else DefaultPlan)"

text \<open>
  The dispatch discipline the specification describes: an ordered list of rule groups,
  each a capability with its keyword phrases; the first group one of whose phrases occurs
  in the lower-cased prompt wins, and the default applies when none does.
\<close>

fun first_match :: "(route \<times> string list) list \<Rightarrow> string \<Rightarrow> route" where
  "first_match [] prompt = DefaultPlan"
| "first_match ((r, kws) # rules) prompt =
     (if any_kw prompt kws then r else first_match rules prompt)"

text \<open>The eight rule groups the specification enumerates before the default.\<close>

definition spec_rules :: "(route \<times> string list) list" where
  "spec_rules =
     [(ProjectCreation, [''create project'', ''new project'', ''generate plan'']),
      (BulkTaskCreation,
         [''create tasks'', ''generate tasks'', ''to do list'', ''todo list'', ''tasks for'']),
      (TaskModification,
         [''update'', ''change'', ''move'', ''delete'', ''remove'', ''reassign'']),
      (ProjectHealth,
         [''health'', ''status'', ''how is the project'', ''progress'', ''burnout'']),
      (SingleTaskCreation,
         [''add task'', ''create task'', ''new task'', ''task for'', ''create a task'',
          ''add a task'']),
      (TaskBreakdown, [''break down'', ''breakdown'', ''split'', ''subtasks for'']),
      (Estimation, [''estimate'', ''how long'', ''time needed'', ''cost'']),
      (BacklogPrioritization, [''prioritize'', ''priority'', ''order backlog'', ''rank''])]"

text \<open>The rule groups of the source: the eight above and the later health-summary group.\<close>

definition code_rules :: "(route \<times> string list) list" where
  "code_rules =
     spec_rules @
     [(HealthSummary, [''health'', ''status'', ''summary'', ''how is'', ''progress''])]"

text \<open>
  \<open>split_first sep s\<close> cuts \<open>s\<close> at the leftmost occurrence of \<open>sep\<close>, so that
  \<open>s.split(sep)[0]\<close> is \<open>before_first sep s\<close>, and \<open>s.split(sep)[1]\<close>, the text between
  the first and the second occurrence, is \<open>segment1 sep s\<close> when \<open>sep\<close> occurs in \<open>s\<close>
  (the source indexes \<open>[1]\<close> only behind the test \<open>sep in s\<close>).
\<close>

fun split_first :: "string \<Rightarrow> string \<Rightarrow> (string \<times> string) option" where
  "split_first sep [] = (if sep = [] then Some ([], []) else None)"
| "split_first sep (c # cs) =
     (if starts_with (c # cs) sep then Some ([], drop (length sep) (c # cs))
      else (case split_first sep cs of
              None \<Rightarrow> None
            | Some (before, after) \<Rightarrow> Some (c # before, after)))"

definition before_first :: "string \<Rightarrow> string \<Rightarrow> string" where
  "before_first sep s = (case split_first sep s of None \<Rightarrow> s | Some (before, after) \<Rightarrow> before)"

definition segment1 :: "string \<Rightarrow> string \<Rightarrow> string" where
  "segment1 sep s =
     (case split_first sep s of None \<Rightarrow> [] | Some (before, after) \<Rightarrow> before_first sep after)"

text \<open>\<open>str.strip()\<close>: the ASCII characters for which \<open>str.isspace\<close> holds are removed at both ends.\<close>

definition is_space :: "char \<Rightarrow> bool" where
  "is_space c = (let n = (of_char c :: nat) in (9 \<le> n \<and> n \<le> 13) \<or> (28 \<le> n \<and> n \<le> 32))"

definition strip :: "string \<Rightarrow> string" where
  "strip s = rev (dropWhile is_space (rev (dropWhile is_space s)))"

text \<open>\<open>s.find(c)\<close> and \<open>s.rfind(c)\<close> for a single character; \<open>None\<close> is the result \<open>-1\<close>.\<close>

fun find_char :: "char \<Rightarrow> string \<Rightarrow> nat option" where
  "find_char c [] = None"
| "find_char c (x # xs) =
     (if x = c then Some 0 else (case find_char c xs of None \<Rightarrow> None | Some i \<Rightarrow> Some (Suc i)))"

fun rfind_char :: "char \<Rightarrow> string \<Rightarrow> nat option" where
  "rfind_char c [] = None"
| "rfind_char c (x # xs) =
     (case rfind_char c xs of
        Some i \<Rightarrow> Some (Suc i)
      | None \<Rightarrow> (if x = c then Some 0 else None))"

text \<open>\<open>str(n)\<close> for a natural number.\<close>

definition digit :: "nat \<Rightarrow> char" where
  "digit d = ''0123456789'' ! d"

fun decimal :: "nat \<Rightarrow> string" where
  "decimal n = (if n < 10 then [digit n] else decimal (n div 10) @ [digit (n mod 10)])"

declare decimal.simps [simp del]

section \<open>Errors and parsed values\<close>

text \<open>The exceptions the modelled code raises, carrying the message where the source builds one.\<close>

datatype error =
    ValueError string
  | TypeError
  | AttributeError
  | IntegrityError
  | BackendError
  | HTTPException nat string

text \<open>
  The values \<open>json.loads\<close> returns. The parser itself belongs to the Python standard
  library: it is a parameter \<open>loads\<close> of the functions that call it, with \<open>None\<close> for
  \<open>json.JSONDecodeError\<close>.
\<close>

datatype json =
    JNull
  | JBool bool
  | JNum int
  | JStr string
  | JArr "json list"
  | JObj "(string \<times> json) list"

fun is_dict :: "json \<Rightarrow> bool" where
  "is_dict (JObj kvs) = True"
| "is_dict v = False"

section \<open>Structured-Response Extractor (agent/agent_service.py)\<close>

text \<open>
  The fence stripping every generator performs on the backend's text:
  \<^verbatim>\<open>if "```json" in content: content = content.split("```json")[1].split("```")[0].strip()\<close>
  \<^verbatim>\<open>elif "```" in content: content = content.split("```")[1].split("```")[0].strip()\<close>
\<close>

definition fence :: string where
  "fence = ''```''"

definition json_fence :: string where
  "json_fence = ''```json''"

definition strip_fence :: "string \<Rightarrow> string" where
  "strip_fence content =
     (if contains content json_fence
        then strip (before_first fence (segment1 json_fence content))
      else if contains content fence
        then strip (before_first fence (segment1 fence content))
      else content)"

text \<open>
  The brace slicing of \<open>generate_project_plan\<close>:
  \<^verbatim>\<open>start = content.find("{"); end = content.rfind("}")\<close>
  \<^verbatim>\<open>if start != -1 and end != -1: content = content[start:end+1]\<close>
\<close>

definition brace_slice :: "string \<Rightarrow> string" where
  "brace_slice content =
     (case (find_char (CHR ''{'') content, rfind_char (CHR ''}'') content) of
        (Some start, Some end) \<Rightarrow> take (end + 1 - start) (drop start content)
      | _ \<Rightarrow> content)"

text \<open>
  The text each generator hands to \<open>json.loads\<close>. Only \<open>generate_project_plan\<close> slices
  to the braces; \<open>breakdown_task\<close>, \<open>generate_estimates\<close>, \<open>generate_health_summary\<close>,
  \<open>prioritize_backlog\<close>, \<open>generate_task_list\<close> and \<open>modify_task\<close> parse the fence-stripped
  text as it is.
\<close>

definition plan_parse_input :: "string \<Rightarrow> string" where
  "plan_parse_input content = brace_slice (strip_fence content)"

definition breakdown_parse_input :: "string \<Rightarrow> string" where
  "breakdown_parse_input content = strip_fence content"

text \<open>
  \<open>generate_project_plan\<close> and \<open>breakdown_task\<close> from the backend's answer on: \<open>enabled\<close>
  is \<open>is_agent_enabled()\<close>, \<open>response\<close> the outcome of the backend call (\<open>Inl\<close> when it
  raised). Every exception inside the \<open>try\<close> is re-raised as a \<open>ValueError\<close>.
\<close>

definition generate_project_plan ::
  "bool \<Rightarrow> (string \<Rightarrow> json option) \<Rightarrow> error + string \<Rightarrow> error + json" where
  "generate_project_plan enabled loads response =
     (if \<not> enabled then Inl (ValueError ''Agent not configured. Missing OPENROUTER_API_KEY.'')
      else (case response of
              Inl e \<Rightarrow> Inl (ValueError ''Failed to generate plan'')
            | Inr content \<Rightarrow>
                (case loads (plan_parse_input content) of
                   None \<Rightarrow> Inl (ValueError ''Failed to generate plan'')
                 | Some plan \<Rightarrow> Inr plan)))"

definition breakdown_task ::
  "bool \<Rightarrow> (string \<Rightarrow> json option) \<Rightarrow> error + string \<Rightarrow> error + json" where
  "breakdown_task enabled loads response =
     (if \<not> enabled then Inl (ValueError ''Agent not configured.'')
      else (case response of
              Inl e \<Rightarrow> Inl (ValueError ''Failed to breakdown task'')
            | Inr content \<Rightarrow>
                (case loads (breakdown_parse_input content) of
                   None \<Rightarrow> Inl (ValueError ''Failed to breakdown task'')
                 | Some breakdown \<Rightarrow> Inr breakdown)))"

text \<open>
  \<open>generate_task_list\<close>. The name \<open>content\<close> is rebound by the fence stripping, so the
  length test and the question of both fallbacks read the stripped text.
\<close>

definition generate_task_list ::
  "bool \<Rightarrow> (string \<Rightarrow> json option) \<Rightarrow> error + string \<Rightarrow> error + json" where
  "generate_task_list enabled loads response =
     (if \<not> enabled then Inl (ValueError ''Agent not configured.'')
      else (case response of
              Inl e \<Rightarrow> Inl (ValueError ''Failed to generate task list'')
            | Inr original \<Rightarrow>
                (let content = strip_fence original in
                 case loads content of
                   Some task_list \<Rightarrow>
                     (if \<not> is_dict task_list \<and> length content < 500
                      then Inr (JObj [(''question'', JStr content)])
                      else Inr task_list)
                 | None \<Rightarrow>
                     (if length content < 500
                      then Inr (JObj [(''question'', JStr content)])
                      else Inl (ValueError ''Failed to parse task list JSON'')))))"

text \<open>
  A parser outcome for the examples below, none of whose texts is JSON: every text is
  rejected, as \<open>json.loads\<close> rejects those texts.
\<close>

definition no_json :: "string \<Rightarrow> json option" where
  "no_json s = None"

section \<open>Floating-point arithmetic\<close>

text \<open>
  Python's \<open>float\<close> is the IEEE 754 binary64 format, and \<open>/\<close> on integers and \<open>*\<close> on
  floats return the representable number nearest to the exact result, ties going to the
  even significand. A non-negative finite double is modelled by a pair \<open>(m, k)\<close> that
  stands for \<open>m / 2 ^ k\<close>; \<open>round53 n d\<close> is the double nearest to the fraction
  \<open>n / d\<close>, with a significand of 53 bits. The model covers the fractions below
  \<open>2 ^ 53\<close> in the normal range, which holds every value the health computation meets.
\<close>

type_synonym double = "nat \<times> nat"

fun bitlen :: "nat \<Rightarrow> nat" where
  "bitlen n = (if n = 0 then 0 else Suc (bitlen (n div 2)))"

declare bitlen.simps [simp del]

definition round_half_even :: "nat \<Rightarrow> nat \<Rightarrow> nat" where
  "round_half_even n d =
     (let q = n div d; r = n mod d in
      if 2 * r < d then q
      else if d < 2 * r then q + 1
      else if even q then q else q + 1)"

definition round53 :: "nat \<Rightarrow> nat \<Rightarrow> double" where
  "round53 n d =
     (if n = 0 then (0, 0)
      else let k0 = 52 + bitlen d - bitlen n;
               k = (if d * 2 ^ 52 \<le> n * 2 ^ k0 then k0 else k0 + 1)
           in (round_half_even (n * 2 ^ k) d, k))"

text \<open>\<open>a / b\<close> on integers, \<open>x * n\<close> for a float and an integer, and \<open>int(x)\<close>.\<close>

definition truediv :: "nat \<Rightarrow> nat \<Rightarrow> double" where
  "truediv a b = round53 a b"

definition fmul :: "double \<Rightarrow> nat \<Rightarrow> double" where
  "fmul x n = (case x of (m, k) \<Rightarrow> round53 (m * n) (2 ^ k))"

definition trunc :: "double \<Rightarrow> nat" where
  "trunc x = (case x of (m, k) \<Rightarrow> m div 2 ^ k)"

section \<open>Persistent entities (models/project.py, models/sprint.py, models/task.py)\<close>

text \<open>
  Rows as the ORM objects hold them; an attribute that can be \<open>None\<close> in Python is an
  option. Identifiers stand for the values of \<open>uuid.uuid4\<close>: the store hands out fresh
  ones from a counter. Columns that no modelled operation reads (dates, board
  configuration, members, logged hours, custom fields) are left out.
\<close>

type_synonym uid = nat

record project =
  p_id :: uid
  p_name :: "string option"
  p_key :: string
  p_description :: "string option"
  p_status :: string
  p_category :: "string option"

record sprint =
  s_id :: uid
  s_name :: "string option"
  s_goal :: "string option"
  s_status :: string
  s_project_id :: uid

record task =
  t_id :: uid
  t_content :: "string option"
  t_description :: "string option"
  t_status :: "string option"
  t_priority :: "string option"
  t_assignee :: "string option"
  t_estimated_hours :: "int option"
  t_tags :: "string list"
  t_project_id :: uid
  t_parent_id :: "uid option"
  t_is_backlog :: bool
  t_created_by :: "string option"

record store =
  projects :: "project list"
  sprints :: "sprint list"
  tasks :: "task list"
  next_id :: uid

text \<open>
  A commit succeeds when the row meets the constraints its model declares: the
  \<open>nullable=False\<close> columns are set, the \<open>String(n)\<close> columns hold at most \<open>n\<close>
  characters, the project key is unique and the foreign keys point at stored rows.
  Failures of the connection are not modelled.
\<close>

definition fits :: "nat \<Rightarrow> string option \<Rightarrow> bool" where
  "fits n v = (case v of None \<Rightarrow> True | Some s \<Rightarrow> length s \<le> n)"

definition project_ok :: "store \<Rightarrow> project \<Rightarrow> bool" where
  "project_ok st p =
     (p_name p \<noteq> None \<and> fits 255 (p_name p) \<and> length (p_key p) \<le> 10 \<and>
      p_key p \<notin> set (map p_key (projects st)) \<and> fits 100 (p_category p))"

definition has_project :: "store \<Rightarrow> uid \<Rightarrow> bool" where
  "has_project st pid = list_ex (\<lambda>p. p_id p = pid) (projects st)"

definition has_task :: "store \<Rightarrow> uid \<Rightarrow> bool" where
  "has_task st tid = list_ex (\<lambda>t. t_id t = tid) (tasks st)"

definition sprint_ok :: "store \<Rightarrow> sprint \<Rightarrow> bool" where
  "sprint_ok st s =
     (s_name s \<noteq> None \<and> fits 255 (s_name s) \<and> length (s_status s) \<le> 50 \<and>
      has_project st (s_project_id s))"

definition task_columns_ok :: "task \<Rightarrow> bool" where
  "task_columns_ok t =
     (t_content t \<noteq> None \<and> fits 500 (t_content t) \<and> fits 50 (t_status t) \<and>
      fits 20 (t_priority t) \<and> fits 100 (t_assignee t) \<and> fits 100 (t_created_by t))"

definition task_ok :: "store \<Rightarrow> task \<Rightarrow> bool" where
  "task_ok st t =
     (task_columns_ok t \<and> has_project st (t_project_id t) \<and>
      (case t_parent_id t of None \<Rightarrow> True | Some parent \<Rightarrow> has_task st parent))"

section \<open>Entity Store Gateway (agent/tools.py, AgentTools)\<close>

text \<open>
  Every tool opens its own session and commits once, so each returns its result, or the
  exception it raised, together with the store it leaves behind.
\<close>

text \<open>An entry of a dict read with a default: absent, or present with a value or \<open>None\<close>.\<close>

datatype 'a slot = Absent | Given "'a option"

text \<open>\<open>a or b\<close> on optional strings: \<open>None\<close> and the empty string are false.\<close>

definition or_else :: "string option \<Rightarrow> string option \<Rightarrow> string option" where
  "or_else a b = (case a of None \<Rightarrow> b | Some s \<Rightarrow> if s = [] then b else Some s)"

record project_data =
  pd_name :: "string slot"
  pd_key :: "string slot"
  pd_description :: "string option"
  pd_category :: "string slot"

text \<open>
  \<^verbatim>\<open>base_key = project_data.get("key", project_data.get("name", "PROJ")[:4].upper())\<close>
  The default is evaluated before the lookup of the key, so a name that is present and
  \<open>None\<close> raises \<open>TypeError\<close> whether a key is given or not. A key that is present and
  \<open>None\<close> is formatted as the text \<open>None\<close>.
\<close>

definition base_key :: "project_data \<Rightarrow> error + string" where
  "base_key project_data =
     (case (case pd_name project_data of
              Absent \<Rightarrow> Inr (upper (take 4 ''PROJ''))
            | Given None \<Rightarrow> Inl TypeError
            | Given (Some name) \<Rightarrow> Inr (upper (take 4 name))) of
        Inl e \<Rightarrow> Inl e
      | Inr from_name \<Rightarrow>
          (case pd_key project_data of
             Absent \<Rightarrow> Inr from_name
           | Given None \<Rightarrow> Inr ''None''
           | Given (Some key) \<Rightarrow> Inr key))"

text \<open>\<^verbatim>\<open>unique_key = f"{base_key}{int(time.time()) % 10000}"\<close>, with \<open>now\<close> for \<open>int(time.time())\<close>.\<close>

definition unique_key :: "string \<Rightarrow> nat \<Rightarrow> string" where
  "unique_key base now = base @ decimal (now mod 10000)"

definition create_project :: "nat \<Rightarrow> store \<Rightarrow> project_data \<Rightarrow> (error + project) \<times> store" where
  "create_project now st project_data =
     (case base_key project_data of
        Inl e \<Rightarrow> (Inl e, st)
      | Inr base \<Rightarrow>
          (let project =
                 \<lparr>p_id = next_id st,
                  p_name = (case pd_name project_data of Absent \<Rightarrow> None | Given v \<Rightarrow> v),
                  p_key = unique_key base now,
                  p_description = pd_description project_data,
                  p_status = ''active'',
                  p_category =
                    (case pd_category project_data of
                       Absent \<Rightarrow> Some ''ai-generated'' | Given v \<Rightarrow> v)\<rparr>
           in if project_ok st project
              then (Inr project,
                    st\<lparr>projects := projects st @ [project], next_id := Suc (next_id st)\<rparr>)
              else (Inl IntegrityError, st)))"

record task_data =
  td_name :: "string option"
  td_content :: "string option"
  td_description :: "string option"
  td_priority :: "string option"
  td_assignee :: "string option"
  td_estimated_hours :: "int option"
  td_tags :: "string list option"

text \<open>
  \<open>create_task\<close>. A priority that is absent is replaced by \<open>"medium"\<close> by the lookup's
  default, and one that is \<open>None\<close> by the column's default when the row is inserted, so
  both read \<open>None\<close> here. The \<open>parent_id\<close> entry that callers pass for sub-tasks is not
  read by the source.
\<close>

definition create_task :: "store \<Rightarrow> task_data \<Rightarrow> uid \<Rightarrow> (error + task) \<times> store" where
  "create_task st task_data project_id =
     (let task =
            \<lparr>t_id = next_id st,
             t_content = or_else (td_name task_data) (td_content task_data),
             t_description = td_description task_data,
             t_status = Some ''To Do'',
             t_priority =
               Some (case td_priority task_data of None \<Rightarrow> ''medium'' | Some p \<Rightarrow> p),
             t_assignee = td_assignee task_data,
             t_estimated_hours = td_estimated_hours task_data,
             t_tags = (case td_tags task_data of None \<Rightarrow> [] | Some tags \<Rightarrow> tags),
             t_project_id = project_id,
             t_parent_id = None,
             t_is_backlog = True,
             t_created_by = Some ''pm-ai-agent''\<rparr>
      in if task_ok st task
         then (Inr task, st\<lparr>tasks := tasks st @ [task], next_id := Suc (next_id st)\<rparr>)
         else (Inl IntegrityError, st))"

record sprint_data =
  sd_name :: "string option"
  sd_description :: "string option"
  sd_goal :: "string option"

definition create_sprint :: "store \<Rightarrow> sprint_data \<Rightarrow> uid \<Rightarrow> (error + sprint) \<times> store" where
  "create_sprint st sprint_data project_id =
     (let sprint =
            \<lparr>s_id = next_id st,
             s_name = sd_name sprint_data,
             s_goal = or_else (sd_description sprint_data) (sd_goal sprint_data),
             s_status = ''planned'',
             s_project_id = project_id\<rparr>
      in if sprint_ok st sprint
         then (Inr sprint, st\<lparr>sprints := sprints st @ [sprint], next_id := Suc (next_id st)\<rparr>)
         else (Inl IntegrityError, st))"

definition get_project_by_id :: "store \<Rightarrow> uid \<Rightarrow> project option" where
  "get_project_by_id st project_id = find (\<lambda>p. p_id p = project_id) (projects st)"


section \<open>Health Analyzer (agent/tools.py, get_project_health)\<close>

text \<open>
  The result is one of two dicts: \<open>{"status": "empty", "completion_rate": 0}\<close>, here
  \<open>Empty_Health ''empty'' 0\<close>, or the snapshot with its five entries.
\<close>

record snapshot =
  total_tasks :: nat
  completion_rate :: nat
  in_progress :: nat
  overloaded_members :: "string list"
  burnout_risk :: string

datatype health = Empty_Health string nat | Health snapshot

text \<open>
  \<open>assignee_counts[a] = assignee_counts.get(a, 0) + 1\<close> on a dict, which keeps its keys
  in the order of their first insertion.
\<close>

fun count_assignee :: "string \<Rightarrow> (string \<times> nat) list \<Rightarrow> (string \<times> nat) list" where
  "count_assignee a [] = [(a, 1)]"
| "count_assignee a ((k, v) # kvs) =
     (if k = a then (k, v + 1) # kvs else (k, v) # count_assignee a kvs)"

text \<open>\<open>if t.assignee and t.status != "Done"\<close>: an assignee that is \<open>None\<close> or empty is skipped.\<close>

definition counts_as_open :: "task \<Rightarrow> bool" where
  "counts_as_open t =
     ((case t_assignee t of None \<Rightarrow> False | Some a \<Rightarrow> a \<noteq> []) \<and> t_status t \<noteq> Some ''Done'')"

fun assignee_counts :: "task list \<Rightarrow> (string \<times> nat) list \<Rightarrow> (string \<times> nat) list" where
  "assignee_counts [] counts = counts"
| "assignee_counts (t # ts) counts =
     assignee_counts ts
       (if counts_as_open t then count_assignee (the (t_assignee t)) counts else counts)"

definition health_of :: "task list \<Rightarrow> health" where
  "health_of ts =
     (let total = length ts in
      if total = 0 then Empty_Health ''empty'' 0
      else
        let completed = length (filter (\<lambda>t. t_status t = Some ''Done'') ts);
            in_prog = length (filter (\<lambda>t. t_status t = Some ''In Progress'') ts);
            overloaded = map fst (filter (\<lambda>(k, v). 5 < v) (assignee_counts ts []))
        in Health
             \<lparr>total_tasks = total,
              completion_rate = trunc (fmul (truediv completed total) 100),
              in_progress = in_prog,
              overloaded_members = overloaded,
              burnout_risk = (if overloaded \<noteq> [] then ''High'' else ''Low'')\<rparr>)"

definition get_project_health :: "store \<Rightarrow> uid \<Rightarrow> health" where
  "get_project_health st project_id =
     health_of (filter (\<lambda>t. t_project_id t = project_id) (tasks st))"

text \<open>A task of project 1 with a status and an assignee, for the examples.\<close>

definition example_task :: "string \<Rightarrow> string option \<Rightarrow> task" where
  "example_task status who =
     \<lparr>t_id = 0, t_content = Some ''task'', t_description = None, t_status = Some status,
      t_priority = Some ''medium'', t_assignee = who, t_estimated_hours = None, t_tags = [],
      t_project_id = 1, t_parent_id = None, t_is_backlog = True,
      t_created_by = Some ''pm-ai-agent''\<rparr>"

section \<open>Plan Executor (agent/agent_service.py, execute_plan)\<close>

text \<open>
  The Generated Plan is the dict the backend returned, read here at the entries
  \<open>execute_plan\<close> uses. An entry read with \<open>get\<close> and no default is an option: \<open>None\<close>
  is an entry that is absent or \<open>null\<close>. The entry \<open>"tasks"\<close> is read with the default
  \<open>[]\<close>, which replaces an absent entry and not one that is \<open>null\<close>, so it is a slot. A
  milestone and a task entry are dicts in turn.
\<close>

record milestone =
  m_name :: "string option"
  m_description :: "string option"

record plan_task =
  pt_name :: "string option"
  pt_description :: "string option"
  pt_priority :: "string option"
  pt_estimated_hours :: "int option"

record plan =
  pl_project_name :: "string option"
  pl_overview :: "string option"
  pl_milestones :: "milestone list option"
  pl_tasks :: "plan_task list slot"
  pl_epics :: "plan_task list option"

text \<open>The three dicts \<open>execute_plan\<close> builds for the gateway.\<close>

definition project_data_of :: "plan \<Rightarrow> project_data" where
  "project_data_of plan =
     \<lparr>pd_name = Given (pl_project_name plan),
      pd_key = Absent,
      pd_description = pl_overview plan,
      pd_category = Given (Some ''ai-generated'')\<rparr>"

definition sprint_data_of :: "milestone \<Rightarrow> sprint_data" where
  "sprint_data_of milestone =
     \<lparr>sd_name = m_name milestone,
      sd_description = m_description milestone,
      sd_goal = m_description milestone\<rparr>"

definition task_data_of :: "plan_task \<Rightarrow> task_data" where
  "task_data_of task_data =
     \<lparr>td_name = pt_name task_data,
      td_content = None,
      td_description = pt_description task_data,
      td_priority = Some (case pt_priority task_data of None \<Rightarrow> ''medium'' | Some p \<Rightarrow> p),
      td_assignee = None,
      td_estimated_hours = pt_estimated_hours task_data,
      td_tags = Some [''ai-generated'']\<rparr>"

text \<open>\<open>if plan.get("milestones"): for milestone in plan["milestones"]\<close>\<close>

definition milestones_of :: "plan \<Rightarrow> milestone list" where
  "milestones_of plan = (case pl_milestones plan of None \<Rightarrow> [] | Some ms \<Rightarrow> ms)"

text \<open>
  \<^verbatim>\<open>tasks_to_create = plan.get("tasks", [])\<close>
  \<^verbatim>\<open>if not tasks_to_create and plan.get("epics"): tasks_to_create = plan.get("epics", [])\<close>
  The value is \<open>None\<close> when \<open>"tasks"\<close> is \<open>null\<close> and there are no epics to fall back on.
\<close>

definition tasks_to_create :: "plan \<Rightarrow> plan_task list option" where
  "tasks_to_create plan =
     (let from_tasks = (case pl_tasks plan of Absent \<Rightarrow> Some [] | Given v \<Rightarrow> v) in
      if (from_tasks = None \<or> from_tasks = Some []) \<and>
         (case pl_epics plan of None \<Rightarrow> False | Some es \<Rightarrow> es \<noteq> [])
      then pl_epics plan
      else from_tasks)"

text \<open>
  The two loops: each iteration commits on its own, and an exception ends the loop.
  \<^verbatim>\<open>for task_data in tasks_to_create\<close> raises \<open>TypeError\<close> when the value is \<open>None\<close>.
\<close>

fun create_sprints ::
  "store \<Rightarrow> uid \<Rightarrow> milestone list \<Rightarrow> sprint list \<Rightarrow> (error + sprint list) \<times> store" where
  "create_sprints st project_id [] created_sprints = (Inr created_sprints, st)"
| "create_sprints st project_id (milestone # rest) created_sprints =
     (case create_sprint st (sprint_data_of milestone) project_id of
        (Inl e, st') \<Rightarrow> (Inl e, st')
      | (Inr sprint, st') \<Rightarrow> create_sprints st' project_id rest (created_sprints @ [sprint]))"

fun create_tasks ::
  "store \<Rightarrow> uid \<Rightarrow> plan_task list \<Rightarrow> task list \<Rightarrow> (error + task list) \<times> store" where
  "create_tasks st project_id [] created_tasks = (Inr created_tasks, st)"
| "create_tasks st project_id (task_data # rest) created_tasks =
     (case create_task st (task_data_of task_data) project_id of
        (Inl e, st') \<Rightarrow> (Inl e, st')
      | (Inr task, st') \<Rightarrow> create_tasks st' project_id rest (created_tasks @ [task]))"

record execution =
  ex_success :: bool
  ex_project :: project
  ex_tasks_created :: nat
  ex_sprints_created :: nat
  ex_project_id :: uid
  ex_tasks :: "task list"
  ex_sprints :: "sprint list"

definition execute_plan :: "bool \<Rightarrow> nat \<Rightarrow> store \<Rightarrow> plan \<Rightarrow> (error + execution) \<times> store" where
  "execute_plan enabled now st plan =
     (if \<not> enabled then (Inl (ValueError ''Agent not configured.''), st)
      else
        case create_project now st (project_data_of plan) of
          (Inl e, st1) \<Rightarrow> (Inl e, st1)
        | (Inr project, st1) \<Rightarrow>
            (let project_id = p_id project in
             case create_sprints st1 project_id (milestones_of plan) [] of
               (Inl e, st2) \<Rightarrow> (Inl e, st2)
             | (Inr created_sprints, st2) \<Rightarrow>
                 (case tasks_to_create plan of
                    None \<Rightarrow> (Inl TypeError, st2)
                  | Some entries \<Rightarrow>
                      (case create_tasks st2 project_id entries [] of
                         (Inl e, st3) \<Rightarrow> (Inl e, st3)
                       | (Inr created_tasks, st3) \<Rightarrow>
                           (Inr \<lparr>ex_success = True,
                                 ex_project = project,
                                 ex_tasks_created = length created_tasks,
                                 ex_sprints_created = length created_sprints,
                                 ex_project_id = project_id,
                                 ex_tasks = created_tasks,
                                 ex_sprints = created_sprints\<rparr>,
                            st3)))))"

text \<open>
  The entries of a plan whose rows the store accepts: a milestone with a name of at most
  255 characters, and a task entry with a non-empty name of at most 500 characters and a
  priority of at most 20.
\<close>

definition milestone_ok :: "milestone \<Rightarrow> bool" where
  "milestone_ok m = (case m_name m of None \<Rightarrow> False | Some n \<Rightarrow> length n \<le> 255)"

definition plan_task_ok :: "plan_task \<Rightarrow> bool" where
  "plan_task_ok d =
     ((case pt_name d of None \<Rightarrow> False | Some n \<Rightarrow> n \<noteq> [] \<and> length n \<le> 500) \<and>
      fits 20 (pt_priority d))"

text \<open>An empty store and a plan with two milestones and three tasks, for the examples.\<close>

definition empty_store :: store where
  "empty_store = \<lparr>projects = [], sprints = [], tasks = [], next_id = 0\<rparr>"

definition example_plan :: plan where
  "example_plan =
     \<lparr>pl_project_name = Some ''Food delivery app'',
      pl_overview = Some ''A mobile app'',
      pl_milestones =
        Some [\<lparr>m_name = Some ''Design'', m_description = Some ''Screens''\<rparr>,
              \<lparr>m_name = Some ''Build'', m_description = None\<rparr>],
      pl_tasks =
        Given (Some
          [\<lparr>pt_name = Some ''Login'', pt_description = None, pt_priority = Some ''high'',
            pt_estimated_hours = Some 8\<rparr>,
           \<lparr>pt_name = Some ''Menu'', pt_description = None, pt_priority = None,
            pt_estimated_hours = None\<rparr>,
           \<lparr>pt_name = Some ''Checkout'', pt_description = Some ''Pay'', pt_priority = None,
            pt_estimated_hours = None\<rparr>]),
      pl_epics = None\<rparr>"

text \<open>The same plan with its third task entry left without a name.\<close>

definition example_plan_unnamed_task :: plan where
  "example_plan_unnamed_task =
     example_plan
       \<lparr>pl_tasks :=
          Given (Some
            [\<lparr>pt_name = Some ''Login'', pt_description = None, pt_priority = Some ''high'',
              pt_estimated_hours = Some 8\<rparr>,
             \<lparr>pt_name = Some ''Menu'', pt_description = None, pt_priority = None,
              pt_estimated_hours = None\<rparr>,
             \<lparr>pt_name = None, pt_description = Some ''Pay'', pt_priority = None,
              pt_estimated_hours = None\<rparr>])\<rparr>"

text \<open>The same plan with its second milestone left without a name.\<close>

definition example_plan_unnamed_milestone :: plan where
  "example_plan_unnamed_milestone =
     example_plan
       \<lparr>pl_milestones :=
          Some [\<lparr>m_name = Some ''Design'', m_description = Some ''Screens''\<rparr>,
                \<lparr>m_name = None, m_description = Some ''Build''\<rparr>]\<rparr>"

text \<open>The same plan without a project name.\<close>

definition example_plan_nameless :: plan where
  "example_plan_nameless = example_plan\<lparr>pl_project_name := None\<rparr>"

section \<open>Summarizer (agent/agent_service.py, generate_natural_language_response)\<close>

text \<open>
  The prompt is rendered before the \<open>try\<close>: \<open>json.dumps(result, default=str)\<close> and
  \<open>str.format\<close> with the three names of the template. On the results the router passes,
  dicts with string keys, neither raises; \<open>dumps\<close> is the serialiser, a parameter as the
  parser is. \<open>template_head\<close> and \<open>template_tail\<close> are the text of
  \<open>RESPONSE_GENERATION_PROMPT\<close> (agent/prompts.py) before its first and after its last
  field.
\<close>

definition template_head :: string where
  \<open>template_head =
     ''You are a compassionate and strategic Head of Engineering.'' @
     [CHR 0x0A] @
     ''Your goal is to summarize the result of an action taken by the AI'' @
     '' agent into a friendly, professional, and human-like sentence.'' @
     [CHR 0x0A] @
     [CHR 0x0A] @
     ''Action: ''\<close>

definition template_tail :: string where
  \<open>template_tail =
     [CHR 0x0A] @
     [CHR 0x0A] @
     ''CRITICAL INSTRUCTIONS:'' @
     [CHR 0x0A] @
     ''1. Speak naturally, like a human colleague. Do NOT use JSON or code'' @
     '' blocks.'' @
     [CHR 0x0A] @
     ''2. Be empathetic. If someone is overloaded, mention it with concern.'' @
     [CHR 0x0A] @
     ''3. Be transparent. Explain WHY you did what you did (e.g., "I assigned'' @
     '' this to Alice because...").'' @
     [CHR 0x0A] @
     ''4. Keep it concise but informative.'' @
     [CHR 0x0A] @
     ''5. If the result contains "AI Reasoning", definitely include that in'' @
     '' your summary.'' @
     [CHR 0x0A] @
     [CHR 0x0A] @
     ''Example Output:'' @
     [CHR 0x0A] @
     ''"I've successfully created the 'Login Page' task and assigned it to'' @
     '' Alice. I noticed she's busy, so I marked it as high priority to check'' @
     '' her availability."'' @
     [CHR 0x0A] @
     [CHR 0x0A] @
     ''Generate the response now:''\<close>

definition response_prompt :: "string \<Rightarrow> string \<Rightarrow> string \<Rightarrow> string" where
  "response_prompt action result prompt =
     template_head @ action @ [CHR 0x0A] @
     ''Result Data: '' @ result @ [CHR 0x0A] @
     ''User's Original Request: '' @ prompt @ template_tail"

definition apology :: string where
  "apology = ''I completed the action, but I'm having trouble summarizing it right now.''"

text \<open>
  The body of the \<open>try\<close>: the backend call, which raises or returns a message whose
  content is a text or \<open>None\<close>, and \<open>content.strip()\<close>.
\<close>

definition summarize :: "(string \<Rightarrow> error + string option) \<Rightarrow> string \<Rightarrow> error + string" where
  "summarize backend system_prompt =
     (case backend system_prompt of
        Inl e \<Rightarrow> Inl e
      | Inr None \<Rightarrow> Inl AttributeError
      | Inr (Some content) \<Rightarrow> Inr (strip content))"

text \<open>
  The handler writes the error to a log file, and a failure of that write is swallowed by
  the inner bare \<open>except\<close>: \<open>log_written\<close> has no part in the result.
\<close>

definition generate_natural_language_response ::
  "(string \<Rightarrow> error + string option) \<Rightarrow> (json \<Rightarrow> string) \<Rightarrow> bool \<Rightarrow>
   string \<Rightarrow> json \<Rightarrow> string \<Rightarrow> error + string" where
  "generate_natural_language_response backend dumps log_written action result prompt =
     (let system_prompt = response_prompt action (dumps result) prompt in
      case summarize backend system_prompt of
        Inr text \<Rightarrow> Inr text
      | Inl e \<Rightarrow> (if log_written then Inr apology else Inr apology))"

text \<open>A backend that is down and a serialiser, for the examples.\<close>

definition failing_backend :: "string \<Rightarrow> error + string option" where
  "failing_backend system_prompt = Inl BackendError"

definition plain_dumps :: "json \<Rightarrow> string" where
  "plain_dumps v = ''{}''"

section \<open>Task-Modification Resolver (agent/agent_service.py, modify_task)\<close>














text \<open>
  \<^verbatim>\<open>content = (task.get("content") or "").lower()\<close>
  \<^verbatim>\<open>description = (task.get("description") or "").lower()\<close>
  \<^verbatim>\<open>if target_name in content or target_name in description\<close>
\<close>

definition text_of :: "string option \<Rightarrow> string" where
  "text_of v = (case v of None \<Rightarrow> [] | Some s \<Rightarrow> s)"

definition matches :: "string \<Rightarrow> task \<Rightarrow> bool" where
  "matches target_name task =
     (contains (lower (text_of (t_content task))) target_name \<or>
      contains (lower (text_of (t_description task))) target_name)"











section \<open>Bulk Task Creation (routes/agent.py, execute_agent_command, second branch)\<close>

text \<open>
  The generated task list is the dict \<open>generate_task_list\<close> returned, read at the
  entries the branch uses; a task draft is a dict in turn. \<open>"description"\<close> of a draft is
  read with the default \<open>""\<close> and \<open>"tasks"\<close> with the default \<open>[]\<close>, so both are slots.
\<close>

record draft =
  dr_name :: "string option"
  dr_description :: "string slot"
  dr_assignment_reasoning :: "string option"
  dr_priority :: "string option"
  dr_estimated_hours :: "int option"
  dr_assignee :: "string option"
  dr_sub_tasks :: "string list option"

record task_list =
  tl_question :: "string option"
  tl_tasks :: "draft list slot"










record response =
  r_success :: bool
  r_action :: string
  r_result :: json
  r_message :: string
  r_execution_details :: "json option"











section \<open>Verified properties\<close>

subsection \<open>Substring test\<close>

lemma starts_with_iff: "starts_with s kw \<longleftrightarrow> (\<exists>ss. s = kw @ ss)"
  by (induction s kw rule: starts_with.induct) auto

lemma contains_iff: "contains s kw \<longleftrightarrow> (\<exists>ps ss. s = ps @ kw @ ss)"
proof (induction s)
  case Nil
  then show ?case by auto
next
  case (Cons c cs)
  show ?case
  proof
    assume "contains (c # cs) kw"
    then consider "starts_with (c # cs) kw" | "contains cs kw" by auto
    then show "\<exists>ps ss. c # cs = ps @ kw @ ss"
    proof cases
      case 1
      then obtain ss where "c # cs = kw @ ss" by (auto simp: starts_with_iff)
      then have "c # cs = [] @ kw @ ss" by simp
      then show ?thesis by blast
    next
      case 2
      then obtain ps ss where "cs = ps @ kw @ ss" using Cons.IH by auto
      then have "c # cs = (c # ps) @ kw @ ss" by simp
      then show ?thesis by blast
    qed
  next
    assume "\<exists>ps ss. c # cs = ps @ kw @ ss"
    then obtain ps ss where eq: "c # cs = ps @ kw @ ss" by blast
    show "contains (c # cs) kw"
    proof (cases ps)
      case Nil
      with eq have "starts_with (c # cs) kw" by (auto simp: starts_with_iff)
      then show ?thesis by simp
    next
      case (Cons q qs)
      with eq have "cs = qs @ kw @ ss" by simp
      then have "contains cs kw" using Cons.IH by blast
      then show ?thesis by simp
    qed
  qed
qed

subsection \<open>Command Router\<close>

lemma first_match_least:
  "i < length rules \<Longrightarrow> any_kw p (snd (rules ! i)) \<Longrightarrow>
   \<exists>k\<le>i. first_match rules p = fst (rules ! k) \<and> any_kw p (snd (rules ! k))
        \<and> (\<forall>l<k. \<not> any_kw p (snd (rules ! l)))"
proof (induction rules arbitrary: i)
  case Nil
  then show ?case by simp
next
  case (Cons rk rules)
  obtain r kws where rk: "rk = (r, kws)" by (cases rk)
  show ?case
  proof (cases "any_kw p kws")
    case True
    then have "first_match (rk # rules) p = fst ((rk # rules) ! 0) \<and>
       any_kw p (snd ((rk # rules) ! 0)) \<and> (\<forall>l<0. \<not> any_kw p (snd ((rk # rules) ! l)))"
      by (simp add: rk)
    then show ?thesis by blast
  next
    case False
    with Cons.prems rk obtain i' where i': "i = Suc i'" by (cases i) auto
    with Cons.prems have "i' < length rules" "any_kw p (snd (rules ! i'))" by auto
    from Cons.IH[OF this] obtain k where k: "k \<le> i'" "first_match rules p = fst (rules ! k)"
      "any_kw p (snd (rules ! k))" "\<forall>l<k. \<not> any_kw p (snd (rules ! l))" by blast
    have "\<forall>l<Suc k. \<not> any_kw p (snd ((rk # rules) ! l))"
    proof (intro allI impI)
      fix l assume "l < Suc k"
      then show "\<not> any_kw p (snd ((rk # rules) ! l))"
        using False k(4) rk by (cases l) auto
    qed
    with k False rk i' have "Suc k \<le> i \<and> first_match (rk # rules) p = fst ((rk # rules) ! Suc k) \<and>
       any_kw p (snd ((rk # rules) ! Suc k)) \<and> (\<forall>l<Suc k. \<not> any_kw p (snd ((rk # rules) ! l)))"
      by simp
    then show ?thesis by blast
  qed
qed

lemma first_match_none:
  "\<forall>i<length rules. \<not> any_kw p (snd (rules ! i)) \<Longrightarrow> first_match rules p = DefaultPlan"
proof (induction rules)
  case Nil
  then show ?case by simp
next
  case (Cons rk rules)
  obtain r kws where rk: "rk = (r, kws)" by (cases rk)
  from Cons.prems have "\<not> any_kw p (snd ((rk # rules) ! 0))" by blast
  then have no: "\<not> any_kw p kws" by (simp add: rk)
  have "\<forall>i<length rules. \<not> any_kw p (snd (rules ! i))"
  proof (intro allI impI)
    fix i assume "i < length rules"
    then have "Suc i < length (rk # rules)" by simp
    with Cons.prems have "\<not> any_kw p (snd ((rk # rules) ! Suc i))" by blast
    then show "\<not> any_kw p (snd (rules ! i))" by simp
  qed
  with Cons.IH no rk show ?case by simp
qed

lemma code_rules_distinct: "distinct (map fst code_rules)"
  by (simp add: code_rules_def spec_rules_def)

lemma route_of_first_match: "route_of p = first_match code_rules (lower p)"
  by (simp add: route_of_def code_rules_def spec_rules_def Let_def)

text \<open>
  Claim C1, as the code has it. The route is the capability of the first rule group, in the
  source order of the nine groups of \<open>code_rules\<close>, one of whose phrases occurs in the
  lower-cased prompt, and the default when none does; so when the phrases of two groups
  occur, the later group never wins and the route is that of a group no later than the
  earlier one.
\<close>

theorem router_priority_dispatch:
  "route_of p = first_match code_rules (lower p) \<and>
   (i < j \<longrightarrow> j < length code_rules \<longrightarrow>
    any_kw (lower p) (snd (code_rules ! i)) \<longrightarrow>
    any_kw (lower p) (snd (code_rules ! j)) \<longrightarrow>
    route_of p \<noteq> fst (code_rules ! j) \<and>
    (\<exists>k\<le>i. route_of p = fst (code_rules ! k)))"
proof (intro conjI impI)
  show eq: "route_of p = first_match code_rules (lower p)"
    by (rule route_of_first_match)
  assume ij: "i < j" and j: "j < length code_rules"
    and mi: "any_kw (lower p) (snd (code_rules ! i))"
    and mj: "any_kw (lower p) (snd (code_rules ! j))"
  from ij j have "i < length code_rules" by simp
  from first_match_least[OF this mi] obtain k where
    k: "k \<le> i" "first_match code_rules (lower p) = fst (code_rules ! k)" by blast
  then show "\<exists>k\<le>i. route_of p = fst (code_rules ! k)" using eq by auto
  from k ij j have "k < length code_rules" "k \<noteq> j" by auto
  with j code_rules_distinct have "fst (code_rules ! k) \<noteq> fst (code_rules ! j)"
    by (auto simp: distinct_conv_nth)
  with k show "route_of p \<noteq> fst (code_rules ! j)"
    using eq by simp
qed

text \<open>The specification's own example: "create project" together with "health".\<close>

theorem router_priority_dispatch_witness:
  "any_kw (lower ''Create project and report its health'') (snd (code_rules ! 0)) \<and>
   any_kw (lower ''Create project and report its health'') (snd (code_rules ! 3)) \<and>
   route_of ''Create project and report its health'' = ProjectCreation \<and>
   route_of ''Create project and report its health'' \<noteq> fst (code_rules ! 3)"
proof -
  have len: "(0::nat) < 3" "3 < length code_rules"
    by (simp_all add: code_rules_def spec_rules_def)
  have m0: "any_kw (lower ''Create project and report its health'') (snd (code_rules ! 0))"
    by code_simp
  have m3: "any_kw (lower ''Create project and report its health'') (snd (code_rules ! 3))"
    by code_simp
  have r: "route_of ''Create project and report its health'' = ProjectCreation"
    by code_simp
  from router_priority_dispatch[of "''Create project and report its health''" 0 3] len m0 m3
  have "route_of ''Create project and report its health'' \<noteq> fst (code_rules ! 3)"
    by blast
  with m0 m3 r show ?thesis by blast
qed

text \<open>
  With the eight groups the specification lists, a prompt whose only phrase is "summary"
  falls to the default; the source routes it to the ninth group.
\<close>

theorem router_summary_counterexample:
  "route_of ''summary'' = HealthSummary \<and>
   first_match spec_rules (lower ''summary'') = DefaultPlan"
  by code_simp

subsection \<open>Structured-Response Extractor\<close>

lemma json_fence_in_fence: "contains s json_fence \<Longrightarrow> contains s fence"
proof -
  assume "contains s json_fence"
  then obtain ps ss where "s = ps @ json_fence @ ss" by (auto simp: contains_iff)
  then have "s = ps @ fence @ (''json'' @ ss)" by (simp add: json_fence_def fence_def)
  then show ?thesis unfolding contains_iff by blast
qed

lemma strip_fence_no_fence: "\<not> contains s fence \<Longrightarrow> strip_fence s = s"
  using json_fence_in_fence[of s] by (auto simp: strip_fence_def)

lemma generate_project_plan_slices:
  "generate_project_plan True loads (Inr content) =
     (case loads (brace_slice (strip_fence content)) of
        None \<Rightarrow> Inl (ValueError ''Failed to generate plan'')
      | Some plan \<Rightarrow> Inr plan)"
  by (simp add: generate_project_plan_def plan_parse_input_def)

text \<open>
  Claim C2 at the answer \<open>Sure, here it is: {"subtasks": []} Hope this helps!\<close>.
  The plan generator hands the span from the first opening brace to the last closing brace
  to the parser; the breakdown generator, which has no brace slicing, hands it the whole
  text, prose included, so that its result is whatever the parser makes of that text.
\<close>

theorem breakdown_skips_brace_slice:
  "breakdown_parse_input ''Sure, here it is: {\"subtasks\": []} Hope this helps!''
     = ''Sure, here it is: {\"subtasks\": []} Hope this helps!'' \<and>
   plan_parse_input ''Sure, here it is: {\"subtasks\": []} Hope this helps!''
     = ''{\"subtasks\": []}'' \<and>
   breakdown_task True loads (Inr ''Sure, here it is: {\"subtasks\": []} Hope this helps!'')
     = (case loads ''Sure, here it is: {\"subtasks\": []} Hope this helps!'' of
          None \<Rightarrow> Inl (ValueError ''Failed to breakdown task'')
        | Some breakdown \<Rightarrow> Inr breakdown)"
proof -
  have a: "breakdown_parse_input ''Sure, here it is: {\"subtasks\": []} Hope this helps!''
     = ''Sure, here it is: {\"subtasks\": []} Hope this helps!''"
    by code_simp
  have b: "plan_parse_input ''Sure, here it is: {\"subtasks\": []} Hope this helps!''
     = ''{\"subtasks\": []}''"
    by code_simp
  show ?thesis
    unfolding breakdown_task_def a using a b by simp
qed

text \<open>
  Claim C3, as the code has it. When the fence-stripped text does not parse, the task-list
  path returns the clarification result whose question is the fence-stripped text if that
  text is shorter than 500 characters, and fails with a parse error otherwise; on a
  response without a code fence the fence-stripped text is the response itself.
\<close>

theorem task_list_fallback:
  "loads (strip_fence t) = None \<Longrightarrow>
   generate_task_list True loads (Inr t) =
     (if length (strip_fence t) < 500
      then Inr (JObj [(''question'', JStr (strip_fence t))])
      else Inl (ValueError ''Failed to parse task list JSON'')) \<and>
   (\<not> contains t fence \<longrightarrow> strip_fence t = t)"
  by (simp add: generate_task_list_def Let_def strip_fence_no_fence)

theorem task_list_fallback_witness:
  "no_json (strip_fence ''Which project is this for?'') = None \<and>
   \<not> contains ''Which project is this for?'' fence \<and>
   generate_task_list True no_json (Inr ''Which project is this for?'') =
     Inr (JObj [(''question'', JStr ''Which project is this for?'')])"
proof -
  have nf: "\<not> contains ''Which project is this for?'' fence" by code_simp
  have h: "no_json (strip_fence ''Which project is this for?'') = None"
    by (simp add: no_json_def)
  from task_list_fallback[of no_json "''Which project is this for?''", OF h] nf h
  show ?thesis by simp
qed

text \<open>
  A fenced question: the clarification carries the text inside the fence, not the original
  response; and a response of more than 600 characters whose fenced part is short yields a
  clarification, not a parse failure.
\<close>

theorem task_list_fenced_counterexample:
  "generate_task_list True no_json (Inr ''```json Which project? ```'') =
     Inr (JObj [(''question'', JStr ''Which project?'')]) \<and>
   ''Which project?'' \<noteq> ''```json Which project? ```'' \<and>
   length (replicate 600 (CHR ''x'') @ ''``` Which project? ```'') \<ge> 500 \<and>
   generate_task_list True no_json
       (Inr (replicate 600 (CHR ''x'') @ ''``` Which project? ```'')) =
     Inr (JObj [(''question'', JStr ''Which project?'')])"
proof -
  have a: "strip_fence ''```json Which project? ```'' = ''Which project?''" by code_simp
  have b: "strip_fence (replicate 600 (CHR ''x'') @ ''``` Which project? ```'') = ''Which project?''"
    by code_simp
  show ?thesis by (simp add: generate_task_list_def Let_def a b no_json_def)
qed

subsection \<open>Floating-point arithmetic\<close>

lemma bitlen_eq: "2 ^ k \<le> n \<Longrightarrow> n < 2 ^ Suc k \<Longrightarrow> bitlen n = Suc k"
proof (induction k arbitrary: n)
  case 0
  then have "n = 1" by simp
  then show ?case by (simp add: bitlen.simps)
next
  case (Suc k)
  then have "2 ^ k \<le> n div 2" "n div 2 < 2 ^ Suc k" by auto
  then have "bitlen (n div 2) = Suc k" by (rule Suc.IH)
  moreover from Suc.prems have "n \<noteq> 0" by auto
  ultimately show ?case by (subst bitlen.simps) simp
qed

text \<open>\<open>29 / 50\<close> is the double \<open>0.57999999999999996\<close>, and a hundred times it is \<open>57.99999999999999\<close>.\<close>

lemma truediv_29_50: "truediv 29 50 = (5224175567749775, 53)"
proof -
  have "bitlen 29 = 5" using bitlen_eq[of 4 29] by simp
  moreover have "bitlen 50 = 6" using bitlen_eq[of 5 50] by simp
  ultimately show ?thesis
    by (simp add: truediv_def round53_def round_half_even_def Let_def)
qed

lemma fmul_29_50_100: "fmul (5224175567749775, 53) 100 = (8162774324609023, 47)"
proof -
  have "bitlen 522417556774977500 = 59" using bitlen_eq[of 58 522417556774977500] by simp
  moreover have "bitlen 9007199254740992 = 54" using bitlen_eq[of 53 9007199254740992] by simp
  ultimately show ?thesis
    by (simp add: fmul_def round53_def round_half_even_def Let_def)
qed

lemma rate_29_50: "trunc (fmul (truediv 29 50) 100) = 57"
  by (simp add: truediv_29_50 fmul_29_50_100 trunc_def)

subsection \<open>Health Analyzer\<close>

lemma health_of_empty: "health_of [] = Empty_Health ''empty'' 0"
  by (simp add: health_of_def)

text \<open>
  Claim C4 at a project of fifty tasks, twenty-nine of them done. The percentage is
  \<open>floor(100 * 29 / 50) = 58\<close>, and the source, which divides and multiplies in floating
  point before it truncates, reports 57.
\<close>

theorem health_completion_rate_29_of_50:
  "health_of (replicate 29 (example_task ''Done'' None) @
              replicate 21 (example_task ''To Do'' None)) =
     Health \<lparr>total_tasks = 50, completion_rate = 57, in_progress = 0,
             overloaded_members = [], burnout_risk = ''Low''\<rparr> \<and>
   (100 * 29) div 50 = (58 :: nat)"
proof -
  let ?done = "example_task ''Done'' None" and ?todo = "example_task ''To Do'' None"
  let ?ts = "replicate 29 ?done @ replicate 21 ?todo"
  have st: "t_status ?done = Some ''Done''" "t_status ?todo = Some ''To Do''"
    by (simp_all add: example_task_def)
  have completed: "length (filter (\<lambda>t. t_status t = Some ''Done'') ?ts) = 29"
    by (simp add: st)
  have in_prog: "length (filter (\<lambda>t. t_status t = Some ''In Progress'') ?ts) = 0"
    by (simp add: st)
  have no_open: "\<not> counts_as_open ?done" "\<not> counts_as_open ?todo"
    by (simp_all add: counts_as_open_def example_task_def)
  have skip: "assignee_counts (replicate n t) counts = counts" if "\<not> counts_as_open t"
    for n t counts using that by (induction n) simp_all
  have counts: "assignee_counts ?ts [] = []"
  proof -
    have "assignee_counts (xs @ ys) c = assignee_counts ys (assignee_counts xs c)"
      for xs ys c by (induction xs arbitrary: c) simp_all
    then show ?thesis by (simp add: skip no_open)
  qed
  have "health_of ?ts =
     Health \<lparr>total_tasks = 50, completion_rate = 57, in_progress = 0,
             overloaded_members = [], burnout_risk = ''Low''\<rparr>"
    unfolding health_of_def Let_def completed in_prog counts
    by (simp add: rate_29_50)
  then show ?thesis by simp
qed

subsection \<open>Entity Store Gateway\<close>

lemma decimal_length: "n < 10 ^ Suc k \<Longrightarrow> length (decimal n) \<le> Suc k"
proof (induction k arbitrary: n)
  case 0
  then show ?case by (simp add: decimal.simps[of n])
next
  case (Suc k)
  show ?case
  proof (cases "n < 10")
    case True
    then show ?thesis by (simp add: decimal.simps[of n])
  next
    case False
    from Suc.prems have "n div 10 < 10 ^ Suc k" by (simp add: less_mult_imp_div_less)
    then have "length (decimal (n div 10)) \<le> Suc k" by (rule Suc.IH)
    with False show ?thesis by (simp add: decimal.simps[of n])
  qed
qed

lemma unique_key_length: "length (unique_key base now) \<le> length base + 4"
proof -
  have "now mod 10000 < 10 ^ Suc 3" by simp
  then have "length (decimal (now mod 10000)) \<le> Suc 3" by (rule decimal_length)
  then show ?thesis by (simp add: unique_key_def)
qed

lemma has_project_append: "has_project (st\<lparr>projects := projects st @ [p]\<rparr>) (p_id p)"
  by (simp add: has_project_def list_ex_iff)

lemma create_task_Inr:
  "create_task st td pid = (Inr t, st') \<Longrightarrow>
   st' = st\<lparr>tasks := tasks st @ [t], next_id := Suc (next_id st)\<rparr> \<and>
   t_project_id t = pid \<and>
   t_content t = or_else (td_name td) (td_content td) \<and>
   t_priority t = Some (case td_priority td of None \<Rightarrow> ''medium'' | Some p \<Rightarrow> p) \<and>
   t_tags t = (case td_tags td of None \<Rightarrow> [] | Some tags \<Rightarrow> tags)"
  by (auto simp: create_task_def Let_def split: if_splits)

lemma create_task_Inl: "create_task st td pid = (Inl e, st') \<Longrightarrow> st' = st \<and> e = IntegrityError"
  by (auto simp: create_task_def Let_def split: if_splits)

lemma create_sprint_Inr:
  "create_sprint st sd pid = (Inr s, st') \<Longrightarrow>
   st' = st\<lparr>sprints := sprints st @ [s], next_id := Suc (next_id st)\<rparr> \<and> s_project_id s = pid"
  by (auto simp: create_sprint_def Let_def split: if_splits)

lemma create_sprint_Inl: "create_sprint st sd pid = (Inl e, st') \<Longrightarrow> st' = st"
  by (auto simp: create_sprint_def Let_def split: if_splits)

subsection \<open>Plan Executor\<close>

lemma create_task_accepts:
  assumes "has_project st pid" and "plan_task_ok d"
  shows "\<exists>t. create_task st (task_data_of d) pid =
           (Inr t, st\<lparr>tasks := tasks st @ [t], next_id := Suc (next_id st)\<rparr>) \<and>
         t_content t = pt_name d \<and> t_project_id t = pid \<and>
         t_priority t = Some (case pt_priority d of None \<Rightarrow> ''medium'' | Some p \<Rightarrow> p) \<and>
         t_tags t = [''ai-generated'']"
  using assms
  by (auto simp: create_task_def task_data_of_def task_ok_def task_columns_ok_def
      plan_task_ok_def fits_def or_else_def Let_def split: option.splits)

lemma create_task_rejects:
  assumes "\<not> plan_task_ok d"
  shows "create_task st (task_data_of d) pid = (Inl IntegrityError, st)"
  using assms
  by (auto simp: create_task_def task_data_of_def task_ok_def task_columns_ok_def
      plan_task_ok_def fits_def or_else_def Let_def split: option.splits)

lemma create_sprint_accepts:
  assumes "has_project st pid" and "milestone_ok m"
  shows "\<exists>s. create_sprint st (sprint_data_of m) pid =
           (Inr s, st\<lparr>sprints := sprints st @ [s], next_id := Suc (next_id st)\<rparr>) \<and>
         s_name s = m_name m \<and> s_project_id s = pid"
  using assms
  by (auto simp: create_sprint_def sprint_data_of_def sprint_ok_def milestone_ok_def fits_def
      Let_def split: option.splits)

lemma create_sprint_rejects:
  assumes "\<not> milestone_ok m"
  shows "create_sprint st (sprint_data_of m) pid = (Inl IntegrityError, st)"
  using assms
  by (auto simp: create_sprint_def sprint_data_of_def sprint_ok_def milestone_ok_def fits_def
      Let_def split: option.splits)

text \<open>
  The loop over accepted entries, followed by \<open>later\<close>: it reaches \<open>later\<close> with one row
  stored for every entry, in their order, and nothing else changed.
\<close>

lemma create_sprints_accepted:
  "has_project st pid \<Longrightarrow> list_all milestone_ok ms \<Longrightarrow>
   \<exists>new st'. create_sprints st pid (ms @ later) acc = create_sprints st' pid later (acc @ new) \<and>
     sprints st' = sprints st @ new \<and> projects st' = projects st \<and> tasks st' = tasks st \<and>
     list_all2 (\<lambda>m s. s_name s = m_name m \<and> s_project_id s = pid) ms new"
proof (induction ms arbitrary: st acc)
  case Nil
  have "create_sprints st pid ([] @ later) acc = create_sprints st pid later (acc @ []) \<and>
     sprints st = sprints st @ [] \<and> projects st = projects st \<and> tasks st = tasks st \<and>
     list_all2 (\<lambda>m s. s_name s = m_name m \<and> s_project_id s = pid) [] []" by simp
  then show ?case by blast
next
  case (Cons m ms)
  then have ok: "milestone_ok m" "list_all milestone_ok ms" by simp_all
  from create_sprint_accepts[OF Cons.prems(1) ok(1)] obtain s where
    s: "create_sprint st (sprint_data_of m) pid =
          (Inr s, st\<lparr>sprints := sprints st @ [s], next_id := Suc (next_id st)\<rparr>)"
    "s_name s = m_name m" "s_project_id s = pid" by blast
  let ?st1 = "st\<lparr>sprints := sprints st @ [s], next_id := Suc (next_id st)\<rparr>"
  have "has_project ?st1 pid" using Cons.prems(1) by (simp add: has_project_def)
  from Cons.IH[OF this ok(2), of "acc @ [s]"] obtain new st' where new:
    "create_sprints ?st1 pid (ms @ later) (acc @ [s]) =
       create_sprints st' pid later ((acc @ [s]) @ new)"
    "sprints st' = sprints ?st1 @ new" "projects st' = projects ?st1"
    "tasks st' = tasks ?st1"
    "list_all2 (\<lambda>m s. s_name s = m_name m \<and> s_project_id s = pid) ms new" by blast
  have "create_sprints st pid ((m # ms) @ later) acc =
          create_sprints st' pid later (acc @ s # new) \<and>
     sprints st' = sprints st @ s # new \<and> projects st' = projects st \<and>
     tasks st' = tasks st \<and>
     list_all2 (\<lambda>m s. s_name s = m_name m \<and> s_project_id s = pid) (m # ms) (s # new)"
    using s new by simp
  then show ?case by blast
qed

lemma create_tasks_accepted:
  "has_project st pid \<Longrightarrow> list_all plan_task_ok ds \<Longrightarrow>
   \<exists>new st'. create_tasks st pid (ds @ later) acc = create_tasks st' pid later (acc @ new) \<and>
     tasks st' = tasks st @ new \<and> projects st' = projects st \<and> sprints st' = sprints st \<and>
     list_all2 (\<lambda>d t. t_content t = pt_name d \<and> t_project_id t = pid \<and>
                    t_priority t =
                      Some (case pt_priority d of None \<Rightarrow> ''medium'' | Some p \<Rightarrow> p) \<and>
                    t_tags t = [''ai-generated'']) ds new"
proof (induction ds arbitrary: st acc)
  case Nil
  have "create_tasks st pid ([] @ later) acc = create_tasks st pid later (acc @ []) \<and>
     tasks st = tasks st @ [] \<and> projects st = projects st \<and> sprints st = sprints st \<and>
     list_all2 (\<lambda>d t. t_content t = pt_name d \<and> t_project_id t = pid \<and>
                    t_priority t =
                      Some (case pt_priority d of None \<Rightarrow> ''medium'' | Some p \<Rightarrow> p) \<and>
                    t_tags t = [''ai-generated'']) [] []" by simp
  then show ?case by blast
next
  case (Cons d ds)
  then have ok: "plan_task_ok d" "list_all plan_task_ok ds" by simp_all
  from create_task_accepts[OF Cons.prems(1) ok(1)] obtain t where
    t: "create_task st (task_data_of d) pid =
          (Inr t, st\<lparr>tasks := tasks st @ [t], next_id := Suc (next_id st)\<rparr>)"
    "t_content t = pt_name d" "t_project_id t = pid"
    "t_priority t = Some (case pt_priority d of None \<Rightarrow> ''medium'' | Some p \<Rightarrow> p)"
    "t_tags t = [''ai-generated'']" by blast
  let ?st1 = "st\<lparr>tasks := tasks st @ [t], next_id := Suc (next_id st)\<rparr>"
  have "has_project ?st1 pid" using Cons.prems(1) by (simp add: has_project_def)
  from Cons.IH[OF this ok(2), of "acc @ [t]"] obtain new st' where new:
    "create_tasks ?st1 pid (ds @ later) (acc @ [t]) =
       create_tasks st' pid later ((acc @ [t]) @ new)"
    "tasks st' = tasks ?st1 @ new" "projects st' = projects ?st1"
    "sprints st' = sprints ?st1"
    "list_all2 (\<lambda>d t. t_content t = pt_name d \<and> t_project_id t = pid \<and>
                    t_priority t =
                      Some (case pt_priority d of None \<Rightarrow> ''medium'' | Some p \<Rightarrow> p) \<and>
                    t_tags t = [''ai-generated'']) ds new" by blast
  have "create_tasks st pid ((d # ds) @ later) acc =
          create_tasks st' pid later (acc @ t # new) \<and>
     tasks st' = tasks st @ t # new \<and> projects st' = projects st \<and>
     sprints st' = sprints st \<and>
     list_all2 (\<lambda>d t. t_content t = pt_name d \<and> t_project_id t = pid \<and>
                    t_priority t =
                      Some (case pt_priority d of None \<Rightarrow> ''medium'' | Some p \<Rightarrow> p) \<and>
                    t_tags t = [''ai-generated'']) (d # ds) (t # new)"
    using t new by simp
  then show ?case by blast
qed

lemma base_key_of_plan:
  "base_key (project_data_of plan) =
     (case pl_project_name plan of None \<Rightarrow> Inl TypeError | Some n \<Rightarrow> Inr (upper (take 4 n)))"
  by (simp add: base_key_def project_data_of_def split: option.splits)

lemma create_project_accepts:
  assumes "pl_project_name plan = Some n" and "is_ascii n" and "length n \<le> 255"
    and "unique_key (upper (take 4 n)) now \<notin> set (map p_key (projects st))"
  shows "\<exists>p. create_project now st (project_data_of plan) =
           (Inr p, st\<lparr>projects := projects st @ [p], next_id := Suc (next_id st)\<rparr>) \<and>
         p_name p = Some n \<and> p_key p = unique_key (upper (take 4 n)) now"
proof -
  have "length (unique_key (upper (take 4 n)) now) \<le> length (upper (take 4 n)) + 4"
    by (rule unique_key_length)
  then have len: "length (unique_key (upper (take 4 n)) now) \<le> 10"
    by (simp add: upper_def)
  have bk: "base_key (project_data_of plan) = Inr (upper (take 4 n))"
    using assms(1) by (simp add: base_key_of_plan)
  show ?thesis
    unfolding create_project_def bk
    using assms len by (simp add: project_ok_def fits_def Let_def project_data_of_def)
qed

lemma create_project_nameless:
  "pl_project_name plan = None \<Longrightarrow>
   create_project now st (project_data_of plan) = (Inl TypeError, st)"
  by (simp add: create_project_def base_key_of_plan)

lemma create_project_collides:
  "base_key pd = Inr base \<Longrightarrow> unique_key base now \<in> set (map p_key (projects st)) \<Longrightarrow>
   create_project now st pd = (Inl IntegrityError, st)"
  by (simp add: create_project_def project_ok_def Let_def)

text \<open>The task entries of a plan, read from its entries \<open>"tasks"\<close> and \<open>"epics"\<close>.\<close>

lemma tasks_to_create_Some:
  assumes "pl_tasks plan = Given None \<longrightarrow> (\<exists>e es. pl_epics plan = Some (e # es))"
  shows "tasks_to_create plan =
           Some (case pl_tasks plan of
                   Given (Some (d # ds)) \<Rightarrow> d # ds
                 | _ \<Rightarrow> (case pl_epics plan of None \<Rightarrow> [] | Some es \<Rightarrow> es))"
  using assms
  by (auto simp: tasks_to_create_def Let_def split: slot.splits option.splits list.splits)

lemma tasks_to_create_None:
  "tasks_to_create plan = None \<longleftrightarrow>
     pl_tasks plan = Given None \<and> (pl_epics plan = None \<or> pl_epics plan = Some [])"
  by (auto simp: tasks_to_create_def Let_def split: slot.splits option.splits list.splits)

text \<open>
  The run of \<open>execute_plan\<close> up to the end of the accepted milestones \<open>ms\<close>: the project
  and one sprint for every milestone of \<open>ms\<close> are stored, and the loop stands before the
  milestones \<open>later\<close>.
\<close>

lemma execute_plan_stages:
  assumes "pl_project_name plan = Some n" and "is_ascii n" and "length n \<le> 255"
    and "unique_key (upper (take 4 n)) now \<notin> set (map p_key (projects st))"
    and "(case pl_milestones plan of None \<Rightarrow> [] | Some ms \<Rightarrow> ms) = ms @ later"
    and "list_all milestone_ok ms"
  shows "\<exists>p st1 st2 new_sprints.
           create_project now st (project_data_of plan) = (Inr p, st1) \<and>
           p_name p = Some n \<and> p_key p = unique_key (upper (take 4 n)) now \<and>
           create_sprints st1 (p_id p) (milestones_of plan) [] =
             create_sprints st2 (p_id p) later new_sprints \<and>
           has_project st2 (p_id p) \<and>
           projects st2 = projects st @ [p] \<and> sprints st2 = sprints st @ new_sprints \<and>
           tasks st2 = tasks st \<and>
           list_all2 (\<lambda>m s. s_name s = m_name m \<and> s_project_id s = p_id p) ms new_sprints"
proof -
  from create_project_accepts[OF assms(1-4)] obtain p where
    p: "create_project now st (project_data_of plan) =
          (Inr p, st\<lparr>projects := projects st @ [p], next_id := Suc (next_id st)\<rparr>)"
    "p_name p = Some n" "p_key p = unique_key (upper (take 4 n)) now" by blast
  let ?st1 = "st\<lparr>projects := projects st @ [p], next_id := Suc (next_id st)\<rparr>"
  have hp1: "has_project ?st1 (p_id p)"
    by (simp add: has_project_def list_ex_iff)
  from create_sprints_accepted[OF hp1 assms(6), of later "[]"] obtain new st2 where new:
    "create_sprints ?st1 (p_id p) (ms @ later) [] = create_sprints st2 (p_id p) later ([] @ new)"
    "sprints st2 = sprints ?st1 @ new" "projects st2 = projects ?st1" "tasks st2 = tasks ?st1"
    "list_all2 (\<lambda>m s. s_name s = m_name m \<and> s_project_id s = p_id p) ms new" by blast
  have hp2: "has_project st2 (p_id p)"
    using hp1 new(3) by (simp add: has_project_def)
  have ms: "milestones_of plan = ms @ later"
    using assms(5) by (simp add: milestones_of_def)
  have "create_project now st (project_data_of plan) = (Inr p, ?st1) \<and>
        p_name p = Some n \<and> p_key p = unique_key (upper (take 4 n)) now \<and>
        create_sprints ?st1 (p_id p) (milestones_of plan) [] =
          create_sprints st2 (p_id p) later new \<and>
        has_project st2 (p_id p) \<and>
        projects st2 = projects st @ [p] \<and> sprints st2 = sprints st @ new \<and>
        tasks st2 = tasks st \<and>
        list_all2 (\<lambda>m s. s_name s = m_name m \<and> s_project_id s = p_id p) ms new"
    using p new hp2 ms by simp
  then show ?thesis by blast
qed

text \<open>
  Claim C5, with the conditions under which it holds. Let the agent be configured and the
  plan have a project name, ASCII text of at most 255 characters, whose key is not taken
  at the time \<open>now\<close>; let every milestone and every task entry be one the store accepts;
  and let \<open>"tasks"\<close> not be \<open>null\<close> unless there are epics. Then \<open>execute_plan\<close> returns
  its result: exactly one project is added, \<open>sprints_created\<close> is the number of
  milestones and one sprint is stored for each, \<open>tasks_created\<close> is the number of task
  entries and one task is stored for each, with the new project's id, the entry's
  priority or \<open>"medium"\<close> where it has none, and the tag \<open>"ai-generated"\<close>. The task entries
  are those of \<open>"tasks"\<close> when that list is not empty, and those of \<open>"epics"\<close> otherwise.
\<close>

theorem execute_plan_counts:
  assumes "pl_project_name plan = Some n" and "is_ascii n" and "length n \<le> 255"
    and "unique_key (upper (take 4 n)) now \<notin> set (map p_key (projects st))"
    and "milestones = (case pl_milestones plan of None \<Rightarrow> [] | Some ms \<Rightarrow> ms)"
    and "list_all milestone_ok milestones"
    and "pl_tasks plan = Given None \<longrightarrow> (\<exists>e es. pl_epics plan = Some (e # es))"
    and "entries =
           (case pl_tasks plan of
              Given (Some (d # ds)) \<Rightarrow> d # ds
            | _ \<Rightarrow> (case pl_epics plan of None \<Rightarrow> [] | Some es \<Rightarrow> es))"
    and "list_all plan_task_ok entries"
  shows "\<exists>ex st' p.
           execute_plan True now st plan = (Inr ex, st') \<and>
           ex_success ex \<and> ex_project ex = p \<and> ex_project_id ex = p_id p \<and>
           projects st' = projects st @ [p] \<and> p_name p = Some n \<and>
           ex_sprints_created ex = length milestones \<and>
           sprints st' = sprints st @ ex_sprints ex \<and>
           list_all2 (\<lambda>m s. s_name s = m_name m \<and> s_project_id s = p_id p)
             milestones (ex_sprints ex) \<and>
           ex_tasks_created ex = length entries \<and>
           tasks st' = tasks st @ ex_tasks ex \<and>
           list_all2 (\<lambda>d t. t_content t = pt_name d \<and> t_project_id t = p_id p \<and>
                          t_priority t =
                            Some (case pt_priority d of None \<Rightarrow> ''medium'' | Some p \<Rightarrow> p) \<and>
                          t_tags t = [''ai-generated''])
             entries (ex_tasks ex)"
proof -
  have ms: "(case pl_milestones plan of None \<Rightarrow> [] | Some ms \<Rightarrow> ms) = milestones @ []"
    using assms(5) by simp
  from execute_plan_stages[OF assms(1-4) ms assms(6)] obtain p st1 st2 ss where s:
    "create_project now st (project_data_of plan) = (Inr p, st1)"
    "p_name p = Some n"
    "create_sprints st1 (p_id p) (milestones_of plan) [] = create_sprints st2 (p_id p) [] ss"
    "has_project st2 (p_id p)"
    "projects st2 = projects st @ [p]" "sprints st2 = sprints st @ ss" "tasks st2 = tasks st"
    "list_all2 (\<lambda>m s. s_name s = m_name m \<and> s_project_id s = p_id p) milestones ss"
    by blast
  have src: "tasks_to_create plan = Some entries"
    using tasks_to_create_Some[OF assms(7)] assms(8) by simp
  from create_tasks_accepted[OF s(4) assms(9), of "[]" "[]"] obtain ts st3 where t:
    "create_tasks st2 (p_id p) (entries @ []) [] = create_tasks st3 (p_id p) [] ([] @ ts)"
    "tasks st3 = tasks st2 @ ts" "projects st3 = projects st2" "sprints st3 = sprints st2"
    "list_all2 (\<lambda>d t. t_content t = pt_name d \<and> t_project_id t = p_id p \<and>
                    t_priority t =
                      Some (case pt_priority d of None \<Rightarrow> ''medium'' | Some p \<Rightarrow> p) \<and>
                    t_tags t = [''ai-generated'']) entries ts" by blast
  have run: "execute_plan True now st plan =
      (Inr \<lparr>ex_success = True, ex_project = p, ex_tasks_created = length ts,
            ex_sprints_created = length ss, ex_project_id = p_id p, ex_tasks = ts,
            ex_sprints = ss\<rparr>, st3)"
    using t(1) by (simp add: execute_plan_def s(1,3) src Let_def)
  have lens: "length ss = length milestones" "length ts = length entries"
    using s(8) t(5) by (simp_all add: list_all2_lengthD)
  show ?thesis
    unfolding run
    using s(2,5,6,7,8) t(2,3,4,5) lens by simp
qed

lemma example_plan_facts:
  "pl_project_name example_plan = Some ''Food delivery app''"
  "is_ascii ''Food delivery app''"
  "length ''Food delivery app'' \<le> 255"
  "unique_key (upper (take 4 ''Food delivery app'')) now
     \<notin> set (map p_key (projects empty_store))"
  "pl_milestones example_plan =
     Some [\<lparr>m_name = Some ''Design'', m_description = Some ''Screens''\<rparr>,
           \<lparr>m_name = Some ''Build'', m_description = None\<rparr>]"
  "pl_tasks example_plan =
     Given (Some
       [\<lparr>pt_name = Some ''Login'', pt_description = None, pt_priority = Some ''high'',
         pt_estimated_hours = Some 8\<rparr>,
        \<lparr>pt_name = Some ''Menu'', pt_description = None, pt_priority = None,
         pt_estimated_hours = None\<rparr>,
        \<lparr>pt_name = Some ''Checkout'', pt_description = Some ''Pay'', pt_priority = None,
         pt_estimated_hours = None\<rparr>])"
  "pl_epics example_plan = None"
  by (simp_all add: example_plan_def empty_store_def is_ascii_def)

text \<open>The specification's example: two milestones and three tasks, on an empty store.\<close>

theorem execute_plan_counts_witness:
  "\<exists>ex st'. execute_plan True 1234 empty_store example_plan = (Inr ex, st') \<and>
     length (projects st') = 1 \<and>
     ex_sprints_created ex = 2 \<and> length (sprints st') = 2 \<and>
     ex_tasks_created ex = 3 \<and> length (tasks st') = 3 \<and>
     map t_project_id (ex_tasks ex) = replicate 3 (p_id (ex_project ex)) \<and>
     map t_priority (ex_tasks ex) = [Some ''high'', Some ''medium'', Some ''medium''] \<and>
     map t_tags (ex_tasks ex) = replicate 3 [''ai-generated'']"
proof -
  let ?ms = "[\<lparr>m_name = Some ''Design'', m_description = Some ''Screens''\<rparr>,
              \<lparr>m_name = Some ''Build'', m_description = None\<rparr>]"
  let ?ds = "[\<lparr>pt_name = Some ''Login'', pt_description = None, pt_priority = Some ''high'',
                pt_estimated_hours = Some 8\<rparr>,
              \<lparr>pt_name = Some ''Menu'', pt_description = None, pt_priority = None,
                pt_estimated_hours = None\<rparr>,
              \<lparr>pt_name = Some ''Checkout'', pt_description = Some ''Pay'', pt_priority = None,
                pt_estimated_hours = None\<rparr>]"
  have ms: "?ms = (case pl_milestones example_plan of None \<Rightarrow> [] | Some ms \<Rightarrow> ms)"
    by (simp add: example_plan_facts(5))
  have ms_ok: "list_all milestone_ok ?ms"
    by (simp add: milestone_ok_def)
  have nn: "pl_tasks example_plan = Given None \<longrightarrow> (\<exists>e es. pl_epics example_plan = Some (e # es))"
    by (simp add: example_plan_facts(6))
  have ds: "?ds =
           (case pl_tasks example_plan of
              Given (Some (d # ds)) \<Rightarrow> d # ds
            | _ \<Rightarrow> (case pl_epics example_plan of None \<Rightarrow> [] | Some es \<Rightarrow> es))"
    by (simp add: example_plan_facts(6))
  have ds_ok: "list_all plan_task_ok ?ds"
    by (simp add: plan_task_ok_def fits_def)
  from execute_plan_counts[OF example_plan_facts(1-4) ms ms_ok nn ds ds_ok, of 1234]
  obtain ex st' p where r:
    "execute_plan True 1234 empty_store example_plan = (Inr ex, st')"
    "ex_project ex = p"
    "projects st' = projects empty_store @ [p]"
    "ex_sprints_created ex = length ?ms"
    "sprints st' = sprints empty_store @ ex_sprints ex"
    "list_all2 (\<lambda>m s. s_name s = m_name m \<and> s_project_id s = p_id p) ?ms (ex_sprints ex)"
    "ex_tasks_created ex = length ?ds"
    "tasks st' = tasks empty_store @ ex_tasks ex"
    "list_all2 (\<lambda>d t. t_content t = pt_name d \<and> t_project_id t = p_id p \<and>
                    t_priority t =
                      Some (case pt_priority d of None \<Rightarrow> ''medium'' | Some p \<Rightarrow> p) \<and>
                    t_tags t = [''ai-generated''])
       ?ds (ex_tasks ex)"
    by blast
  from r(6) have "length (ex_sprints ex) = 2" by (auto simp: list_all2_Cons1)
  moreover from r(9) have "length (ex_tasks ex) = 3 \<and>
     map t_project_id (ex_tasks ex) = replicate 3 (p_id p) \<and>
     map t_priority (ex_tasks ex) = [Some ''high'', Some ''medium'', Some ''medium''] \<and>
     map t_tags (ex_tasks ex) = replicate 3 [''ai-generated'']"
    by (auto simp: list_all2_Cons1 numeral_3_eq_3)
  ultimately show ?thesis
    using r(1-5,7,8) by (auto simp: empty_store_def)
qed

text \<open>
  The claim as it was stated covers every plan. A plan without a project name raises
  \<open>TypeError\<close> when the key is derived, and nothing is created.
\<close>

theorem execute_plan_nameless_counterexample:
  "execute_plan True 1234 empty_store example_plan_nameless = (Inl TypeError, empty_store)"
proof -
  have "pl_project_name example_plan_nameless = None"
    by (simp add: example_plan_nameless_def)
  then have "create_project 1234 empty_store (project_data_of example_plan_nameless) =
      (Inl TypeError, empty_store)"
    by (rule create_project_nameless)
  then show ?thesis
    by (simp add: execute_plan_def)
qed

text \<open>A \<open>"tasks"\<close> entry that is \<open>null\<close>, with no epics: the loop raises after the commits.\<close>

lemma execute_plan_null_tasks:
  assumes "pl_project_name plan = Some n" and "is_ascii n" and "length n \<le> 255"
    and "unique_key (upper (take 4 n)) now \<notin> set (map p_key (projects st))"
    and "list_all milestone_ok (case pl_milestones plan of None \<Rightarrow> [] | Some ms \<Rightarrow> ms)"
    and "pl_tasks plan = Given None" and "pl_epics plan = None \<or> pl_epics plan = Some []"
  shows "\<exists>st' p new_sprints.
           execute_plan True now st plan = (Inl TypeError, st') \<and>
           projects st' = projects st @ [p] \<and> sprints st' = sprints st @ new_sprints \<and>
           length new_sprints =
             length (case pl_milestones plan of None \<Rightarrow> [] | Some ms \<Rightarrow> ms) \<and>
           tasks st' = tasks st"
proof -
  let ?ms = "case pl_milestones plan of None \<Rightarrow> [] | Some ms \<Rightarrow> ms"
  have ms: "?ms = ?ms @ []" by simp
  from execute_plan_stages[OF assms(1-4) ms assms(5)] obtain p st1 st2 ss where s:
    "create_project now st (project_data_of plan) = (Inr p, st1)"
    "create_sprints st1 (p_id p) (milestones_of plan) [] = create_sprints st2 (p_id p) [] ss"
    "projects st2 = projects st @ [p]" "sprints st2 = sprints st @ ss" "tasks st2 = tasks st"
    "list_all2 (\<lambda>m s. s_name s = m_name m \<and> s_project_id s = p_id p) ?ms ss"
    by blast
  have src: "tasks_to_create plan = None"
    using assms(6,7) by (simp add: tasks_to_create_None)
  have "execute_plan True now st plan = (Inl TypeError, st2)"
    by (simp add: execute_plan_def s(1,2) src Let_def)
  moreover have "length ss = length ?ms" using s(6) by (simp add: list_all2_lengthD)
  ultimately show ?thesis using s(3-5) by blast
qed

text \<open>
  Claim C9. Let the project of a plan be accepted by the store. If the milestones are
  \<open>good @ bad # rest\<close>, where the store accepts the milestones of \<open>good\<close> and rejects
  \<open>bad\<close>, then \<open>execute_plan\<close> raises and the store it leaves holds the new project and
  one sprint for every milestone of \<open>good\<close>. If every milestone is accepted and the task
  entries are \<open>good @ bad # rest\<close> in the same way, then \<open>execute_plan\<close> raises and the
  store it leaves holds the new project, one sprint for every milestone and one task for
  every entry of \<open>good\<close>. What was committed before the failure stays.
\<close>

theorem execute_plan_no_rollback:
  assumes "pl_project_name plan = Some n" and "is_ascii n" and "length n \<le> 255"
    and "unique_key (upper (take 4 n)) now \<notin> set (map p_key (projects st))"
    and "milestones = (case pl_milestones plan of None \<Rightarrow> [] | Some ms \<Rightarrow> ms)"
    and "entries =
           (case pl_tasks plan of
              Given (Some (d # ds)) \<Rightarrow> d # ds
            | _ \<Rightarrow> (case pl_epics plan of None \<Rightarrow> [] | Some es \<Rightarrow> es))"
  shows "(\<forall>good bad rest.
            milestones = good @ bad # rest \<and> list_all milestone_ok good \<and>
            \<not> milestone_ok bad \<longrightarrow>
            (\<exists>st' p new_sprints.
               execute_plan True now st plan = (Inl IntegrityError, st') \<and>
               projects st' = projects st @ [p] \<and> p_name p = Some n \<and>
               sprints st' = sprints st @ new_sprints \<and>
               list_all2 (\<lambda>m s. s_name s = m_name m \<and> s_project_id s = p_id p)
                 good new_sprints \<and>
               tasks st' = tasks st)) \<and>
         (\<forall>good bad rest.
            list_all milestone_ok milestones \<and> entries = good @ bad # rest \<and>
            list_all plan_task_ok good \<and> \<not> plan_task_ok bad \<longrightarrow>
            (\<exists>st' p new_sprints new_tasks.
               execute_plan True now st plan = (Inl IntegrityError, st') \<and>
               projects st' = projects st @ [p] \<and> p_name p = Some n \<and>
               sprints st' = sprints st @ new_sprints \<and>
               list_all2 (\<lambda>m s. s_name s = m_name m \<and> s_project_id s = p_id p)
                 milestones new_sprints \<and>
               tasks st' = tasks st @ new_tasks \<and>
               list_all2 (\<lambda>d t. t_content t = pt_name d \<and> t_project_id t = p_id p)
                 good new_tasks))"
proof (intro conjI allI impI)
  fix good bad rest
  assume a: "milestones = good @ bad # rest \<and> list_all milestone_ok good \<and>
             \<not> milestone_ok bad"
  then have ms: "(case pl_milestones plan of None \<Rightarrow> [] | Some ms \<Rightarrow> ms) = good @ bad # rest"
    using assms(5) by simp
  from a have good: "list_all milestone_ok good" and bad: "\<not> milestone_ok bad" by simp_all
  from execute_plan_stages[OF assms(1-4) ms good] obtain p st1 st2 ss where s:
    "create_project now st (project_data_of plan) = (Inr p, st1)"
    "p_name p = Some n"
    "create_sprints st1 (p_id p) (milestones_of plan) [] =
       create_sprints st2 (p_id p) (bad # rest) ss"
    "projects st2 = projects st @ [p]" "sprints st2 = sprints st @ ss" "tasks st2 = tasks st"
    "list_all2 (\<lambda>m s. s_name s = m_name m \<and> s_project_id s = p_id p) good ss"
    by blast
  have "create_sprints st2 (p_id p) (bad # rest) ss = (Inl IntegrityError, st2)"
    by (simp add: create_sprint_rejects[OF bad])
  then have "execute_plan True now st plan = (Inl IntegrityError, st2)"
    by (simp add: execute_plan_def s(1,3) Let_def)
  with s(2,4-7) show "\<exists>st' p new_sprints.
               execute_plan True now st plan = (Inl IntegrityError, st') \<and>
               projects st' = projects st @ [p] \<and> p_name p = Some n \<and>
               sprints st' = sprints st @ new_sprints \<and>
               list_all2 (\<lambda>m s. s_name s = m_name m \<and> s_project_id s = p_id p)
                 good new_sprints \<and>
               tasks st' = tasks st" by blast
next
  fix good bad rest
  assume a: "list_all milestone_ok milestones \<and> entries = good @ bad # rest \<and>
            list_all plan_task_ok good \<and> \<not> plan_task_ok bad"
  then have ms_ok: "list_all milestone_ok milestones" and es: "entries = good @ bad # rest"
    and good: "list_all plan_task_ok good" and bad: "\<not> plan_task_ok bad" by simp_all
  have ms: "(case pl_milestones plan of None \<Rightarrow> [] | Some ms \<Rightarrow> ms) = milestones @ []"
    using assms(5) by simp
  from execute_plan_stages[OF assms(1-4) ms ms_ok] obtain p st1 st2 ss where s:
    "create_project now st (project_data_of plan) = (Inr p, st1)"
    "p_name p = Some n"
    "create_sprints st1 (p_id p) (milestones_of plan) [] = create_sprints st2 (p_id p) [] ss"
    "has_project st2 (p_id p)"
    "projects st2 = projects st @ [p]" "sprints st2 = sprints st @ ss" "tasks st2 = tasks st"
    "list_all2 (\<lambda>m s. s_name s = m_name m \<and> s_project_id s = p_id p) milestones ss"
    by blast
  have nn: "pl_tasks plan = Given None \<longrightarrow> (\<exists>e es. pl_epics plan = Some (e # es))"
  proof
    assume "pl_tasks plan = Given None"
    with assms(6) es have "(case pl_epics plan of None \<Rightarrow> [] | Some es \<Rightarrow> es) = good @ bad # rest"
      by simp
    then obtain es where "pl_epics plan = Some es" "es = good @ bad # rest"
      by (cases "pl_epics plan") simp_all
    then show "\<exists>e es. pl_epics plan = Some (e # es)"
      by (cases good) simp_all
  qed
  have src: "tasks_to_create plan = Some (good @ bad # rest)"
    using tasks_to_create_Some[OF nn] assms(6) es by simp
  from create_tasks_accepted[OF s(4) good, of "bad # rest" "[]"] obtain ts st3 where t:
    "create_tasks st2 (p_id p) (good @ bad # rest) [] =
       create_tasks st3 (p_id p) (bad # rest) ([] @ ts)"
    "tasks st3 = tasks st2 @ ts" "projects st3 = projects st2" "sprints st3 = sprints st2"
    "list_all2 (\<lambda>d t. t_content t = pt_name d \<and> t_project_id t = p_id p \<and>
                    t_priority t =
                      Some (case pt_priority d of None \<Rightarrow> ''medium'' | Some p \<Rightarrow> p) \<and>
                    t_tags t = [''ai-generated'']) good ts" by blast
  have content: "list_all2 (\<lambda>d t. t_content t = pt_name d \<and> t_project_id t = p_id p) good ts"
    by (rule list_all2_mono[OF t(5)]) simp
  have "create_tasks st3 (p_id p) (bad # rest) ts = (Inl IntegrityError, st3)"
    by (simp add: create_task_rejects[OF bad])
  with t(1) have "execute_plan True now st plan = (Inl IntegrityError, st3)"
    by (simp add: execute_plan_def s(1,3) src Let_def)
  moreover have "projects st3 = projects st @ [p]" using t(3) s(5) by simp
  moreover have "sprints st3 = sprints st @ ss" using t(4) s(6) by simp
  moreover have "tasks st3 = tasks st @ ts" using t(2) s(7) by simp
  ultimately show "\<exists>st' p new_sprints new_tasks.
               execute_plan True now st plan = (Inl IntegrityError, st') \<and>
               projects st' = projects st @ [p] \<and> p_name p = Some n \<and>
               sprints st' = sprints st @ new_sprints \<and>
               list_all2 (\<lambda>m s. s_name s = m_name m \<and> s_project_id s = p_id p)
                 milestones new_sprints \<and>
               tasks st' = tasks st @ new_tasks \<and>
               list_all2 (\<lambda>d t. t_content t = pt_name d \<and> t_project_id t = p_id p)
                 good new_tasks"
    using s(2,8) content by blast
qed

text \<open>
  The example plan with its second milestone unnamed: the project and the first sprint
  stay. With its third task entry unnamed: the project, both sprints and two tasks stay.
\<close>

theorem execute_plan_no_rollback_witness:
  "(\<exists>st'. execute_plan True 1234 empty_store example_plan_unnamed_milestone =
             (Inl IntegrityError, st') \<and>
          map p_name (projects st') = [Some ''Food delivery app''] \<and>
          map s_name (sprints st') = [Some ''Design''] \<and> tasks st' = []) \<and>
   (\<exists>st'. execute_plan True 1234 empty_store example_plan_unnamed_task =
             (Inl IntegrityError, st') \<and>
          map p_name (projects st') = [Some ''Food delivery app''] \<and>
          map s_name (sprints st') = [Some ''Design'', Some ''Build''] \<and>
          map t_content (tasks st') = [Some ''Login'', Some ''Menu''])"
proof
  let ?plan = example_plan_unnamed_milestone
  let ?design = "\<lparr>m_name = Some ''Design'', m_description = Some ''Screens''\<rparr>"
  let ?bad = "\<lparr>m_name = None, m_description = Some ''Build''\<rparr>"
  have name: "pl_project_name ?plan = Some ''Food delivery app''"
    by (simp add: example_plan_unnamed_milestone_def example_plan_def)
  have ms: "(case pl_milestones ?plan of None \<Rightarrow> [] | Some ms \<Rightarrow> ms) = [?design] @ ?bad # [] \<and>
            list_all milestone_ok [?design] \<and> \<not> milestone_ok ?bad"
    by (simp add: example_plan_unnamed_milestone_def milestone_ok_def)
  note t = execute_plan_no_rollback[OF name example_plan_facts(2-4) refl refl, of 1234]
  note a = conjunct1[OF t, rule_format, of "[?design]" ?bad "[]"]
  from a[OF ms] obtain st' p new_sprints where r:
    "execute_plan True 1234 empty_store ?plan = (Inl IntegrityError, st')"
    "projects st' = projects empty_store @ [p]" "p_name p = Some ''Food delivery app''"
    "sprints st' = sprints empty_store @ new_sprints"
    "list_all2 (\<lambda>m s. s_name s = m_name m \<and> s_project_id s = p_id p) [?design] new_sprints"
    "tasks st' = tasks empty_store"
    by blast
  from r(5) have "map s_name new_sprints = [Some ''Design'']"
    by (auto simp: list_all2_Cons1)
  with r(1-4,6) show "\<exists>st'. execute_plan True 1234 empty_store ?plan =
             (Inl IntegrityError, st') \<and>
          map p_name (projects st') = [Some ''Food delivery app''] \<and>
          map s_name (sprints st') = [Some ''Design''] \<and> tasks st' = []"
    by (simp add: empty_store_def)
next
  let ?plan = example_plan_unnamed_task
  let ?ms = "[\<lparr>m_name = Some ''Design'', m_description = Some ''Screens''\<rparr>,
              \<lparr>m_name = Some ''Build'', m_description = None\<rparr>]"
  let ?login = "\<lparr>pt_name = Some ''Login'', pt_description = None, pt_priority = Some ''high'',
                 pt_estimated_hours = Some 8\<rparr>"
  let ?menu = "\<lparr>pt_name = Some ''Menu'', pt_description = None, pt_priority = None,
                pt_estimated_hours = None\<rparr>"
  let ?bad = "\<lparr>pt_name = None, pt_description = Some ''Pay'', pt_priority = None,
               pt_estimated_hours = None\<rparr>"
  have name: "pl_project_name ?plan = Some ''Food delivery app''"
    by (simp add: example_plan_unnamed_task_def example_plan_def)
  have ms: "(case pl_milestones ?plan of None \<Rightarrow> [] | Some ms \<Rightarrow> ms) = ?ms"
    by (simp add: example_plan_unnamed_task_def example_plan_def)
  have es: "list_all milestone_ok (case pl_milestones ?plan of None \<Rightarrow> [] | Some ms \<Rightarrow> ms) \<and>
            (case pl_tasks ?plan of
               Given (Some (d # ds)) \<Rightarrow> d # ds
             | _ \<Rightarrow> (case pl_epics ?plan of None \<Rightarrow> [] | Some es \<Rightarrow> es)) =
              [?login, ?menu] @ ?bad # [] \<and>
            list_all plan_task_ok [?login, ?menu] \<and> \<not> plan_task_ok ?bad"
    by (simp add: ms) (simp add: example_plan_unnamed_task_def milestone_ok_def
        plan_task_ok_def fits_def)
  note t = execute_plan_no_rollback[OF name example_plan_facts(2-4) refl refl, of 1234]
  note b = conjunct2[OF t, rule_format, of "[?login, ?menu]" ?bad "[]"]
  from b[OF es] obtain st' p new_sprints new_tasks where r:
    "execute_plan True 1234 empty_store ?plan = (Inl IntegrityError, st')"
    "projects st' = projects empty_store @ [p]" "p_name p = Some ''Food delivery app''"
    "sprints st' = sprints empty_store @ new_sprints"
    "list_all2 (\<lambda>m s. s_name s = m_name m \<and> s_project_id s = p_id p)
       (case pl_milestones ?plan of None \<Rightarrow> [] | Some ms \<Rightarrow> ms) new_sprints"
    "tasks st' = tasks empty_store @ new_tasks"
    "list_all2 (\<lambda>d t. t_content t = pt_name d \<and> t_project_id t = p_id p)
       [?login, ?menu] new_tasks"
    by blast
  from r(5) have "map s_name new_sprints = [Some ''Design'', Some ''Build'']"
    unfolding ms by (auto simp: list_all2_Cons1)
  moreover from r(7) have "map t_content new_tasks = [Some ''Login'', Some ''Menu'']"
    by (auto simp: list_all2_Cons1)
  ultimately show "\<exists>st'. execute_plan True 1234 empty_store ?plan =
             (Inl IntegrityError, st') \<and>
          map p_name (projects st') = [Some ''Food delivery app''] \<and>
          map s_name (sprints st') = [Some ''Design'', Some ''Build''] \<and>
          map t_content (tasks st') = [Some ''Login'', Some ''Menu'']"
    using r(1-4,6) by (simp add: empty_store_def)
qed

subsection \<open>Project key\<close>

lemma decimal_1234: "decimal 1234 = ''1234''"
  by (simp add: decimal.simps[of 1234] decimal.simps[of 123] decimal.simps[of 12]
      decimal.simps[of "Suc 0"] digit_def)

lemma upper_Food: "upper ''Food'' = ''FOOD''"
  by code_simp

text \<open>
  The key that the Plan Executor's project gets: the first four characters of the plan's
  project name in upper case, followed by the decimal digits of the time in seconds
  modulo 10000. The executor passes no key of its own.
\<close>

lemma execute_plan_key:
  assumes "pl_project_name plan = Some n" and "is_ascii n" and "length n \<le> 255"
    and "unique_key (upper (take 4 n)) now \<notin> set (map p_key (projects st))"
    and "list_all milestone_ok (case pl_milestones plan of None \<Rightarrow> [] | Some ms \<Rightarrow> ms)"
    and "tasks_to_create plan = Some entries" and "list_all plan_task_ok entries"
  shows "\<exists>ex st'. execute_plan True now st plan = (Inr ex, st') \<and>
           projects st' = projects st @ [ex_project ex] \<and>
           p_key (ex_project ex) = upper (take 4 n) @ decimal (now mod 10000)"
proof -
  let ?ms = "case pl_milestones plan of None \<Rightarrow> [] | Some ms \<Rightarrow> ms"
  have ms: "?ms = ?ms @ []" by simp
  from execute_plan_stages[OF assms(1-4) ms assms(5)] obtain p st1 st2 ss where s:
    "create_project now st (project_data_of plan) = (Inr p, st1)"
    "p_key p = unique_key (upper (take 4 n)) now"
    "create_sprints st1 (p_id p) (milestones_of plan) [] = create_sprints st2 (p_id p) [] ss"
    "has_project st2 (p_id p)" "projects st2 = projects st @ [p]"
    by blast
  from create_tasks_accepted[OF s(4) assms(7), of "[]" "[]"] obtain ts st3 where t:
    "create_tasks st2 (p_id p) (entries @ []) [] = create_tasks st3 (p_id p) [] ([] @ ts)"
    "projects st3 = projects st2" by blast
  have "execute_plan True now st plan =
      (Inr \<lparr>ex_success = True, ex_project = p, ex_tasks_created = length ts,
            ex_sprints_created = length ss, ex_project_id = p_id p, ex_tasks = ts,
            ex_sprints = ss\<rparr>, st3)"
    using t(1) by (simp add: execute_plan_def s(1,3) assms(6) Let_def)
  then show ?thesis
    using s(2,5) t(2) by (simp add: unique_key_def)
qed

text \<open>
  Claim C6. The number appended to the key is the time in seconds modulo 10000, so it
  does not keep repeated runs apart: the plan that was executed at the time 1234 got the
  key \<open>FOOD1234\<close>, and executing it again at the time 11234 derives the same key and
  fails on the uniqueness constraint, with nothing created.
\<close>

theorem project_key_collision:
  "(case fst (execute_plan True 1234 empty_store example_plan) of
      Inl e \<Rightarrow> [] | Inr ex \<Rightarrow> p_key (ex_project ex)) = ''FOOD1234'' \<and>
   execute_plan True 11234 (snd (execute_plan True 1234 empty_store example_plan))
       example_plan =
     (Inl IntegrityError, snd (execute_plan True 1234 empty_store example_plan))"
proof -
  let ?ds = "[\<lparr>pt_name = Some ''Login'', pt_description = None, pt_priority = Some ''high'',
                pt_estimated_hours = Some 8\<rparr>,
              \<lparr>pt_name = Some ''Menu'', pt_description = None, pt_priority = None,
                pt_estimated_hours = None\<rparr>,
              \<lparr>pt_name = Some ''Checkout'', pt_description = Some ''Pay'', pt_priority = None,
                pt_estimated_hours = None\<rparr>]"
  have ms_ok: "list_all milestone_ok
      (case pl_milestones example_plan of None \<Rightarrow> [] | Some ms \<Rightarrow> ms)"
    by (simp add: example_plan_facts(5) milestone_ok_def)
  have src: "tasks_to_create example_plan = Some ?ds"
    by (simp add: tasks_to_create_def example_plan_facts(6,7))
  have ds_ok: "list_all plan_task_ok ?ds"
    by (simp add: plan_task_ok_def fits_def)
  from execute_plan_key[OF example_plan_facts(1-4) ms_ok src ds_ok, of 1234]
  obtain ex st1 where run:
    "execute_plan True 1234 empty_store example_plan = (Inr ex, st1)"
    "projects st1 = projects empty_store @ [ex_project ex]"
    "p_key (ex_project ex) = ''FOOD1234''"
    by (auto simp: upper_Food decimal_1234)
  have bk: "base_key (project_data_of example_plan) = Inr ''FOOD''"
    by (simp add: base_key_of_plan example_plan_facts(1) upper_Food)
  have "unique_key ''FOOD'' 11234 = ''FOOD1234''"
    by (simp add: unique_key_def decimal_1234)
  with run(2,3) have "unique_key ''FOOD'' 11234 \<in> set (map p_key (projects st1))"
    by simp
  from create_project_collides[OF bk this]
  have "execute_plan True 11234 st1 example_plan = (Inl IntegrityError, st1)"
    by (simp add: execute_plan_def)
  with run(1,3) show ?thesis by simp
qed

subsection \<open>Summarizer\<close>

text \<open>
  Claim C8. For every backend, action, result and prompt the summarizer returns a text
  and raises nothing: the stripped answer of the backend when the call and the reading of
  its content go through, and the fixed apology when either fails, whether or not the
  error log could be written.
\<close>

theorem summarizer_never_raises:
  "generate_natural_language_response backend dumps log_written action result prompt =
     Inr (case backend (response_prompt action (dumps result) prompt) of
            Inr (Some content) \<Rightarrow> strip content
          | Inr None \<Rightarrow> apology
          | Inl e \<Rightarrow> apology)"
  by (simp add: generate_natural_language_response_def summarize_def Let_def
      split: sum.splits option.splits)

text \<open>With the backend down, the answer is the apology.\<close>

theorem summarizer_never_raises_witness:
  "generate_natural_language_response failing_backend plain_dumps False
     ''create_project'' JNull ''create project for a shop'' =
   Inr ''I completed the action, but I'm having trouble summarizing it right now.''"
  using summarizer_never_raises [of failing_backend plain_dumps False
      "''create_project''" JNull "''create project for a shop''"]
  by (simp add: failing_backend_def apology_def)

subsection \<open>Task-Modification Resolver\<close>

lemma matches_iff:
  "matches target_name task \<longleftrightarrow>
     (\<exists>ps ss. lower (text_of (t_content task)) = ps @ target_name @ ss) \<or>
     (\<exists>ps ss. lower (text_of (t_description task)) = ps @ target_name @ ss)"
  by (simp add: matches_def contains_iff)












subsection \<open>Bulk Task Creation\<close>







end
